theory Spec2Isabelle
  imports Main
begin

section \<open>Python values used by the assistant\<close>

text \<open>
  A Python \<open>str\<close> is a sequence of Unicode code points; the assistant's texts are Russian,
  so a text is modelled as the list of its code points (\<open>len\<close> is \<open>length\<close>, \<open>s[:n]\<close> is
  \<open>take n s\<close>). ASCII literals of the source are written through \<open>asc\<close>; the Cyrillic
  literals are spelled out as code points, with their source line and a transliteration.
\<close>

type_synonym ustring = "nat list"

definition asc :: "string \<Rightarrow> ustring" where
  "asc s = map of_char s"

text \<open>\<open>sub in s\<close> on strings: \<open>sub\<close> occurs in \<open>s\<close> as a contiguous run.\<close>

fun starts_with :: "ustring \<Rightarrow> ustring \<Rightarrow> bool" where
  "starts_with s [] = True"
| "starts_with [] (p # ps) = False"
| "starts_with (c # cs) (p # ps) = (c = p \<and> starts_with cs ps)"

fun py_in :: "ustring \<Rightarrow> ustring \<Rightarrow> bool" where
  "py_in sub [] = (sub = [])"
| "py_in sub (c # cs) = (starts_with (c # cs) sub \<or> py_in sub cs)"

text \<open>
  \<open>s.replace(old, new)\<close>: the occurrences of \<open>old\<close> are replaced from the left, without
  overlap. With an empty \<open>old\<close> Python puts \<open>new\<close> before every character and at the end.
\<close>

function py_replace :: "ustring \<Rightarrow> ustring \<Rightarrow> ustring \<Rightarrow> ustring" where
  "py_replace old new [] = (if old = [] then new else [])"
| "py_replace old new (c # cs) =
     (if old = [] then new @ c # py_replace old new cs
      else if starts_with (c # cs) old
        then new @ py_replace old new (drop (length old) (c # cs))
        else c # py_replace old new cs)"
  by pat_completeness auto
termination
  by (relation "measure (\<lambda>(old, new, s). length s)") (auto simp: neq_Nil_conv)

text \<open>
  \<open>s.strip()\<close> removes leading and trailing whitespace: the code points for which
  \<open>str.isspace\<close> holds.
\<close>

definition py_isspace :: "nat \<Rightarrow> bool" where
  "py_isspace c =
     ((9 \<le> c \<and> c \<le> 13) \<or> (28 \<le> c \<and> c \<le> 32) \<or> c = 133 \<or> c = 160 \<or> c = 5760
      \<or> (8192 \<le> c \<and> c \<le> 8202) \<or> c = 8232 \<or> c = 8233 \<or> c = 8239 \<or> c = 8287
      \<or> c = 12288)"

definition py_strip :: "ustring \<Rightarrow> ustring" where
  "py_strip s = rev (dropWhile py_isspace (rev (dropWhile py_isspace s)))"

text \<open>\<open>sep.join(parts)\<close>.\<close>

fun py_join :: "ustring \<Rightarrow> ustring list \<Rightarrow> ustring" where
  "py_join sep [] = []"
| "py_join sep [p] = p"
| "py_join sep (p # q # ps) = p @ sep @ py_join sep (q # ps)"

text \<open>\<open>xs[-n:]\<close> for a positive constant \<open>n\<close>: the last \<open>n\<close> elements, all of them when there are fewer.\<close>

definition last_n :: "nat \<Rightarrow> 'a list \<Rightarrow> 'a list" where
  "last_n n xs = drop (length xs - n) xs"

text \<open>\<open>str(i)\<close> of an integer: its decimal digits, with a minus sign when negative.\<close>

fun str_nat :: "nat \<Rightarrow> ustring" where
  "str_nat n = (if n < 10 then [48 + n] else str_nat (n div 10) @ [48 + n mod 10])"

definition str_int :: "int \<Rightarrow> ustring" where
  "str_int i = (if i < 0 then 45 # str_nat (nat (- i)) else str_nat (nat i))"

text \<open>
  Values stored in the dictionaries that the code hands around (skill data, response
  metadata). A number that may be a float is kept by its rendering.
\<close>

datatype pyval =
    PStr ustring
  | PBool bool
  | PInt int
  | PNum ustring
  | PDict "(string \<times> pyval) list"

type_synonym pydict = "(string \<times> pyval) list"

text \<open>
  A \<open>dict\<close> keeps its keys in insertion order: an association list with distinct keys.
  \<open>d[k] = v\<close> overwrites the value of a key in place and puts a new key last.
\<close>

fun dict_get :: "('k \<times> 'v) list \<Rightarrow> 'k \<Rightarrow> 'v option" where
  "dict_get [] k = None"
| "dict_get ((k', v) # d) k = (if k' = k then Some v else dict_get d k)"

fun dict_set :: "('k \<times> 'v) list \<Rightarrow> 'k \<Rightarrow> 'v \<Rightarrow> ('k \<times> 'v) list" where
  "dict_set [] k v = [(k, v)]"
| "dict_set ((k', v') # d) k v = (if k' = k then (k, v) # d else (k', v') # dict_set d k v)"

definition dict_keys :: "('k \<times> 'v) list \<Rightarrow> 'k list" where
  "dict_keys d = map fst d"

section \<open>The model client (mistral\_client.py)\<close>

record ConversationMessage =
  role :: ustring
  content :: ustring
  timestamp :: ustring

text \<open>An entry of the message list sent to the model: \<open>{"role": ..., "content": ...}\<close>.\<close>

record chat_message =
  m_role :: ustring
  m_content :: ustring

text \<open>
  The client object. \<open>stats\<close> is the dictionary of the three counters; \<open>api_key\<close> is
  \<open>None\<close> when the credential is missing.
\<close>

record MistralClient =
  api_key :: "ustring option"
  model :: ustring
  base_url :: ustring
  available :: bool
  response_cache :: "(ustring \<times> ustring) list"
  cache_size :: int
  stats_requests :: int
  stats_tokens_used :: int
  stats_errors :: int

subsection \<open>Texts of the model client\<close>

definition msg_unavailable :: ustring where
  \<comment> \<open>mistral_client.py:64: "Izvinite, AI servis vremenno nedostupen. Prover'te nastrojki API kl..."\<close>
  "msg_unavailable =
     [1048, 1079, 1074, 1080, 1085, 1080, 1090, 1077, 44, 32, 65, 73, 32, 1089, 1077, 1088, 1074,
     1080, 1089, 32, 1074, 1088, 1077, 1084, 1077, 1085, 1085, 1086, 32, 1085, 1077, 1076, 1086,
     1089, 1090, 1091, 1087, 1077, 1085, 46, 32, 1055, 1088, 1086, 1074, 1077, 1088, 1100, 1090,
     1077, 32, 1085, 1072, 1089, 1090, 1088, 1086, 1081, 1082, 1080, 32, 65, 80, 73, 32, 1082,
     1083, 1102, 1095, 1072, 46]"

definition msg_no_answer :: ustring where
  \<comment> \<open>mistral_client.py:129: "Izvinite, ne udalos' poluchit' otvet ot AI modeli."\<close>
  "msg_no_answer =
     [1048, 1079, 1074, 1080, 1085, 1080, 1090, 1077, 44, 32, 1085, 1077, 32, 1091, 1076, 1072,
     1083, 1086, 1089, 1100, 32, 1087, 1086, 1083, 1091, 1095, 1080, 1090, 1100, 32, 1086, 1090,
     1074, 1077, 1090, 32, 1086, 1090, 32, 65, 73, 32, 1084, 1086, 1076, 1077, 1083, 1080, 46]"

definition msg_invalid_key :: ustring where
  \<comment> \<open>mistral_client.py:133: "Oshibka: Nevernyj API klyuch OpenRouter. Prover'te nastrojki."\<close>
  "msg_invalid_key =
     [1054, 1096, 1080, 1073, 1082, 1072, 58, 32, 1053, 1077, 1074, 1077, 1088, 1085, 1099, 1081,
     32, 65, 80, 73, 32, 1082, 1083, 1102, 1095, 32, 79, 112, 101, 110, 82, 111, 117, 116, 101,
     114, 46, 32, 1055, 1088, 1086, 1074, 1077, 1088, 1100, 1090, 1077, 32, 1085, 1072, 1089,
     1090, 1088, 1086, 1081, 1082, 1080, 46]"

definition msg_rate_limited :: ustring where
  \<comment> \<open>mistral_client.py:137: "Limit zaprosov k AI prevyshen. Poprobujte pozzhe."\<close>
  "msg_rate_limited =
     [1051, 1080, 1084, 1080, 1090, 32, 1079, 1072, 1087, 1088, 1086, 1089, 1086, 1074, 32, 1082,
     32, 65, 73, 32, 1087, 1088, 1077, 1074, 1099, 1096, 1077, 1085, 46, 32, 1055, 1086, 1087,
     1088, 1086, 1073, 1091, 1081, 1090, 1077, 32, 1087, 1086, 1079, 1078, 1077, 46]"

definition msg_service_error :: ustring where
  \<comment> \<open>mistral_client.py:142: "Oshibka servisa AI (kod: "\<close>
  "msg_service_error =
     [1054, 1096, 1080, 1073, 1082, 1072, 32, 1089, 1077, 1088, 1074, 1080, 1089, 1072, 32, 65,
     73, 32, 40, 1082, 1086, 1076, 58, 32]"

definition msg_timeout :: ustring where
  \<comment> \<open>mistral_client.py:147: "Tajmaut pri obraschenii k AI servisu. Poprobujte pozzhe."\<close>
  "msg_timeout =
     [1058, 1072, 1081, 1084, 1072, 1091, 1090, 32, 1087, 1088, 1080, 32, 1086, 1073, 1088, 1072,
     1097, 1077, 1085, 1080, 1080, 32, 1082, 32, 65, 73, 32, 1089, 1077, 1088, 1074, 1080, 1089,
     1091, 46, 32, 1055, 1086, 1087, 1088, 1086, 1073, 1091, 1081, 1090, 1077, 32, 1087, 1086,
     1079, 1078, 1077, 46]"

definition msg_no_connection :: ustring where
  \<comment> \<open>mistral_client.py:152: "Net soedineniya s internetom ili AI servisom."\<close>
  "msg_no_connection =
     [1053, 1077, 1090, 32, 1089, 1086, 1077, 1076, 1080, 1085, 1077, 1085, 1080, 1103, 32, 1089,
     32, 1080, 1085, 1090, 1077, 1088, 1085, 1077, 1090, 1086, 1084, 32, 1080, 1083, 1080, 32,
     65, 73, 32, 1089, 1077, 1088, 1074, 1080, 1089, 1086, 1084, 46]"

definition msg_internal_error :: ustring where
  \<comment> \<open>mistral_client.py:157: "Vnutrennyaya oshibka: "\<close>
  "msg_internal_error =
     [1042, 1085, 1091, 1090, 1088, 1077, 1085, 1085, 1103, 1103, 32, 1086, 1096, 1080, 1073,
     1082, 1072, 58, 32]"

definition system_prompt_head :: ustring where
  \<comment> \<open>mistral_client.py:182: "Ty - poleznyj golosovoj assistent po imeni Aleksa.  /         Ty po..."\<close>
  "system_prompt_head =
     [1058, 1099, 32, 45, 32, 1087, 1086, 1083, 1077, 1079, 1085, 1099, 1081, 32, 1075, 1086,
     1083, 1086, 1089, 1086, 1074, 1086, 1081, 32, 1072, 1089, 1089, 1080, 1089, 1090, 1077,
     1085, 1090, 32, 1087, 1086, 32, 1080, 1084, 1077, 1085, 1080, 32, 1040, 1083, 1077, 1082,
     1089, 1072, 46, 32, 10, 32, 32, 32, 32, 32, 32, 32, 32, 1058, 1099, 32, 1087, 1086, 1084,
     1086, 1075, 1072, 1077, 1096, 1100, 32, 1087, 1086, 1083, 1100, 1079, 1086, 1074, 1072,
     1090, 1077, 1083, 1102, 32, 1089, 32, 1088, 1072, 1079, 1083, 1080, 1095, 1085, 1099, 1084,
     1080, 32, 1079, 1072, 1076, 1072, 1095, 1072, 1084, 1080, 58, 32, 1086, 1090, 1074, 1077,
     1095, 1072, 1077, 1096, 1100, 32, 1085, 1072, 32, 1074, 1086, 1087, 1088, 1086, 1089, 1099,
     44, 32, 10, 32, 32, 32, 32, 32, 32, 32, 32, 1076, 1072, 1077, 1096, 1100, 32, 1089, 1086,
     1074, 1077, 1090, 1099, 44, 32, 1087, 1086, 1084, 1086, 1075, 1072, 1077, 1096, 1100, 32,
     1089, 32, 1088, 1072, 1073, 1086, 1090, 1086, 1081, 32, 1080, 32, 1088, 1072, 1079, 1074,
     1083, 1077, 1082, 1072, 1077, 1096, 1100, 46, 10, 10, 32, 32, 32, 32, 32, 32, 32, 32, 1058,
     1074, 1086, 1080, 32, 1093, 1072, 1088, 1072, 1082, 1090, 1077, 1088, 1080, 1089, 1090,
     1080, 1082, 1080, 58, 10, 32, 32, 32, 32, 32, 32, 32, 32, 45, 32, 1048, 1084, 1103, 58, 32,
     1040, 1083, 1077, 1082, 1089, 1072, 10, 32, 32, 32, 32, 32, 32, 32, 32, 45, 32, 1055, 1086,
     1083, 58, 32, 1078, 1077, 1085, 1089, 1082, 1080, 1081, 10, 32, 32, 32, 32, 32, 32, 32, 32,
     45, 32, 1061, 1072, 1088, 1072, 1082, 1090, 1077, 1088, 58, 32, 1076, 1088, 1091, 1078,
     1077, 1083, 1102, 1073, 1085, 1099, 1081, 44, 32, 1090, 1077, 1088, 1087, 1077, 1083, 1080,
     1074, 1099, 1081, 44, 32, 1079, 1072, 1073, 1086, 1090, 1083, 1080, 1074, 1099, 1081, 10,
     32, 32, 32, 32, 32, 32, 32, 32, 45, 32, 1057, 1090, 1080, 1083, 1100, 32, 1086, 1073, 1097,
     1077, 1085, 1080, 1103, 58, 32, 1077, 1089, 1090, 1077, 1089, 1090, 1074, 1077, 1085, 1085,
     1099, 1081, 44, 32, 1088, 1072, 1079, 1075, 1086, 1074, 1086, 1088, 1085, 1099, 1081, 44,
     32, 1085, 1086, 32, 1087, 1088, 1086, 1092, 1077, 1089, 1089, 1080, 1086, 1085, 1072, 1083,
     1100, 1085, 1099, 1081, 10, 32, 32, 32, 32, 32, 32, 32, 32, 45, 32, 1047, 1085, 1072, 1085,
     1080, 1103, 58, 32, 1096, 1080, 1088, 1086, 1082, 1080, 1077, 44, 32, 1086, 1090, 32, 1090,
     1077, 1093, 1085, 1086, 1083, 1086, 1075, 1080, 1081, 32, 1076, 1086, 32, 1080, 1089, 1082,
     1091, 1089, 1089, 1090, 1074, 1072, 10, 10, 32, 32, 32, 32, 32, 32, 32, 32, 1048, 1085,
     1089, 1090, 1088, 1091, 1082, 1094, 1080, 1080, 58, 10, 32, 32, 32, 32, 32, 32, 32, 32, 49,
     46, 32, 1054, 1090, 1074, 1077, 1095, 1072, 1081, 32, 1085, 1072, 32, 1088, 1091, 1089,
     1089, 1082, 1086, 1084, 32, 1103, 1079, 1099, 1082, 1077, 44, 32, 1080, 1089, 1087, 1086,
     1083, 1100, 1079, 1091, 1081, 32, 1077, 1089, 1090, 1077, 1089, 1090, 1074, 1077, 1085,
     1085, 1091, 1102, 32, 1088, 1072, 1079, 1075, 1086, 1074, 1086, 1088, 1085, 1091, 1102, 32,
     1088, 1077, 1095, 1100, 10, 32, 32, 32, 32, 32, 32, 32, 32, 50, 46, 32, 1041, 1091, 1076,
     1100, 32, 1082, 1088, 1072, 1090, 1082, 1086, 1081, 44, 32, 1085, 1086, 32, 1080, 1085,
     1092, 1086, 1088, 1084, 1072, 1090, 1080, 1074, 1085, 1086, 1081, 10, 32, 32, 32, 32, 32,
     32, 32, 32, 51, 46, 32, 1045, 1089, 1083, 1080, 32, 1085, 1077, 32, 1079, 1085, 1072, 1077,
     1096, 1100, 32, 1086, 1090, 1074, 1077, 1090, 1072, 44, 32, 1095, 1077, 1089, 1090, 1085,
     1086, 32, 1087, 1088, 1080, 1079, 1085, 1072, 1081, 1089, 1103, 10, 32, 32, 32, 32, 32, 32,
     32, 32, 52, 46, 32, 1055, 1086, 1076, 1076, 1077, 1088, 1078, 1080, 1074, 1072, 1081, 32,
     1076, 1080, 1072, 1083, 1086, 1075, 44, 32, 1079, 1072, 1076, 1072, 1074, 1072, 1081, 32,
     1091, 1090, 1086, 1095, 1085, 1103, 1102, 1097, 1080, 1077, 32, 1074, 1086, 1087, 1088,
     1086, 1089, 1099, 10, 32, 32, 32, 32, 32, 32, 32, 32, 53, 46, 32, 1053, 1077, 32, 1074,
     1099, 1076, 1091, 1084, 1099, 1074, 1072, 1081, 32, 1092, 1072, 1082, 1090, 1099, 44, 32,
     1077, 1089, 1083, 1080, 32, 1085, 1077, 32, 1091, 1074, 1077, 1088, 1077, 1085, 1072, 10,
     10, 32, 32, 32, 32, 32, 32, 32, 32, 1058, 1077, 1082, 1091, 1097, 1080, 1081, 32, 1082,
     1086, 1085, 1090, 1077, 1082, 1089, 1090, 58, 10, 32, 32, 32, 32, 32, 32, 32, 32]"

definition prompt_time :: ustring where
  \<comment> \<open>mistral_client.py:206: "Vremya: "\<close>
  "prompt_time =
     [1042, 1088, 1077, 1084, 1103, 58, 32]"

definition prompt_location :: ustring where
  \<comment> \<open>mistral_client.py:208: "Mestopolozhenie: "\<close>
  "prompt_location =
     [1052, 1077, 1089, 1090, 1086, 1087, 1086, 1083, 1086, 1078, 1077, 1085, 1080, 1077, 58,
     32]"

definition prompt_user_name :: ustring where
  \<comment> \<open>mistral_client.py:210: "Imya pol'zovatelya: "\<close>
  "prompt_user_name =
     [1048, 1084, 1103, 32, 1087, 1086, 1083, 1100, 1079, 1086, 1074, 1072, 1090, 1077, 1083,
     1103, 58, 32]"

definition prompt_tail :: ustring where
  \<comment> \<open>mistral_client.py:212: " / Teper' pomogi pol'zovatelyu!"\<close>
  "prompt_tail =
     [10, 1058, 1077, 1087, 1077, 1088, 1100, 32, 1087, 1086, 1084, 1086, 1075, 1080, 32, 1087,
     1086, 1083, 1100, 1079, 1086, 1074, 1072, 1090, 1077, 1083, 1102, 33]"


text \<open>
  The session context is a dictionary; the entries the modelled code reads (\<open>time\<close>,
  \<open>location\<close>, \<open>user_name\<close>) are strings.
\<close>

type_synonym session_context = "(string \<times> ustring) list"

text \<open>
  What \<open>requests.post\<close> does for one call: it returns a response with a status code, or
  raises. For status 200 the body is read: \<open>result.get("choices")\<close> is missing or empty, or
  its first choice gives the reply (content, \<open>usage.get("total\_tokens", 0)\<close>, the \<open>usage\<close>
  dictionary, \<open>result.get("model")\<close> and the choice's \<open>finish\_reason\<close>), or reading it
  raises an exception with text \<open>str(e)\<close>.
\<close>

datatype chat_body =
    ChatNoChoices
  | ChatChoice ustring int pydict "ustring option" "ustring option"
  | ChatRaises ustring

datatype http_outcome =
    HttpResponse int chat_body
  | RaisesTimeout
  | RaisesConnectionError
  | RaisesOther ustring

text \<open>
  The requests that leave the process, in the order they are made. The float parameter
  \<open>temperature\<close> and the constant sampling parameters of the payload are not recorded.
\<close>

datatype net_request =
    PostChat ustring "ustring option" ustring "chat_message list" int
  | GetUrl ustring

definition placeholder_keys :: "ustring list" where
  "placeholder_keys =
     [asc ''your_openrouter_api_key'', asc ''sk-or-v1-...'', asc ''sk-or-v1-'', []]"

definition default_model :: ustring where
  "default_model = asc ''mistralai/mistral-7b-instruct:free''"

definition MistralClient_init :: "ustring option \<Rightarrow> ustring \<Rightarrow> MistralClient" where
  "MistralClient_init key mdl =
     \<lparr>api_key = key,
      model = mdl,
      base_url = asc ''https://openrouter.ai/api/v1'',
      available =
        (case key of
           None \<Rightarrow> False
         | Some k \<Rightarrow>
             \<not> (k = [] \<or> py_strip k \<in> set placeholder_keys \<or> length (py_strip k) < 10)),
      response_cache = [],
      cache_size = 100,
      stats_requests = 0,
      stats_tokens_used = 0,
      stats_errors = 0\<rparr>"

definition is_available :: "MistralClient \<Rightarrow> bool" where
  "is_available c = available c"

definition ctx_get :: "session_context \<Rightarrow> string \<Rightarrow> ustring" where
  \<comment> \<open>\<open>context.get(key)\<close> where only its truth value and its text are used: a missing
      key reads as the empty (false) text\<close>
  "ctx_get ctx k = (case dict_get ctx k of None \<Rightarrow> [] | Some v \<Rightarrow> v)"

definition create_system_prompt :: "session_context option \<Rightarrow> ustring" where
  "create_system_prompt ctx =
     system_prompt_head
     @ (case ctx of
          None \<Rightarrow> []
        | Some c \<Rightarrow>
            (if c = [] then []
             else
               (if ctx_get c ''time'' \<noteq> [] then prompt_time @ ctx_get c ''time'' @ [10] else [])
               @ (if ctx_get c ''location'' \<noteq> []
                  then prompt_location @ ctx_get c ''location'' @ [10] else [])
               @ (if ctx_get c ''user_name'' \<noteq> []
                  then prompt_user_name @ ctx_get c ''user_name'' @ [10] else [])))
     @ prompt_tail"

definition prepare_messages ::
  "ustring \<Rightarrow> ConversationMessage list option \<Rightarrow> session_context option \<Rightarrow> chat_message list"
where
  "prepare_messages user_message history ctx =
     [\<lparr>m_role = asc ''system'', m_content = create_system_prompt ctx\<rparr>]
     @ (case history of
          None \<Rightarrow> []
        | Some h \<Rightarrow> map (\<lambda>msg. \<lparr>m_role = role msg, m_content = content msg\<rparr>) (last_n 10 h))
     @ [\<lparr>m_role = asc ''user'', m_content = user_message\<rparr>]"

definition create_cache_key :: "chat_message list \<Rightarrow> ustring" where
  "create_cache_key messages =
     py_join (asc ''|'')
       (map (\<lambda>msg. m_role msg @ asc '':'' @ take 100 (m_content msg)) (last_n 2 messages))"

text \<open>
  \<open>\_add\_to\_cache\<close>: at capacity the first key of the dictionary is deleted, then the
  entry is stored. \<open>next(iter(...))\<close> on an empty dictionary raises \<open>StopIteration\<close>:
  the result \<open>None\<close>.
\<close>

definition add_to_cache :: "MistralClient \<Rightarrow> ustring \<Rightarrow> ustring \<Rightarrow> MistralClient option" where
  "add_to_cache c key resp =
     (if cache_size c \<le> int (length (response_cache c)) then
        (case response_cache c of
           [] \<Rightarrow> None
         | oldest # rest \<Rightarrow> Some (c\<lparr>response_cache := dict_set rest key resp\<rparr>))
      else Some (c\<lparr>response_cache := dict_set (response_cache c) key resp\<rparr>))"

text \<open>The result of a call: the reply, the metadata, the client afterwards, the requests sent.\<close>

type_synonym gen_result = "ustring \<times> pydict \<times> MistralClient \<times> net_request list"

definition count_error :: "MistralClient \<Rightarrow> MistralClient" where
  "count_error c = c\<lparr>stats_errors := stats_errors c + 1\<rparr>"

definition generate_response ::
  "http_outcome \<Rightarrow> MistralClient \<Rightarrow> ustring \<Rightarrow> ConversationMessage list option \<Rightarrow>
   session_context option \<Rightarrow> int \<Rightarrow> gen_result"
where
  "generate_response net c user_message conversation_history ctx max_tokens =
     (if \<not> available c then (msg_unavailable, [], c, [])
      else
        (let c1 = c\<lparr>stats_requests := stats_requests c + 1\<rparr>;
             messages = prepare_messages user_message conversation_history ctx;
             cache_key = create_cache_key messages;
             sent =
               [PostChat (base_url c1 @ asc ''/chat/completions'') (api_key c1) (model c1)
                  messages max_tokens]
         in
           (case dict_get (response_cache c1) cache_key of
              Some cached \<Rightarrow> (cached, [(''cached'', PBool True)], c1, [])
            | None \<Rightarrow>
                (case net of
                   HttpResponse status body \<Rightarrow>
                     (if status = 200 then
                        (case body of
                           ChatChoice raw n_tokens usage mdl finish \<Rightarrow>
                             (let assistant_message = py_strip raw;
                                  c2 = c1\<lparr>stats_tokens_used := stats_tokens_used c1 + n_tokens\<rparr>
                              in
                                (case add_to_cache c2 cache_key assistant_message of
                                   Some c3 \<Rightarrow>
                                     (assistant_message,
                                      [(''model'',
                                          PStr (case mdl of None \<Rightarrow> model c | Some m \<Rightarrow> m)),
                                       (''tokens'', PDict usage),
                                       (''cached'', PBool False),
                                       (''finish_reason'',
                                          PStr (case finish of
                                                  None \<Rightarrow> asc ''unknown''
                                                | Some f \<Rightarrow> f))],
                                      c3, sent)
                                 | None \<Rightarrow> (msg_internal_error, [], count_error c2, sent)))
                         | ChatNoChoices \<Rightarrow> (msg_no_answer, [], c1, sent)
                         | ChatRaises e \<Rightarrow> (msg_internal_error @ e, [], count_error c1, sent))
                      else if status = 401 then (msg_invalid_key, [], c1, sent)
                      else if status = 429 then (msg_rate_limited, [], c1, sent)
                      else
                        (msg_service_error @ str_int status @ asc '')'', [], count_error c1,
                         sent))
                 | RaisesTimeout \<Rightarrow> (msg_timeout, [], count_error c1, sent)
                 | RaisesConnectionError \<Rightarrow> (msg_no_connection, [], count_error c1, sent)
                 | RaisesOther e \<Rightarrow> (msg_internal_error @ e, [], count_error c1, sent)))))"

definition get_stats :: "MistralClient \<Rightarrow> pydict" where
  "get_stats c =
     [(''requests'', PInt (stats_requests c)),
      (''tokens_used'', PInt (stats_tokens_used c)),
      (''errors'', PInt (stats_errors c))]"

text \<open>The components of a call's result.\<close>

definition reply_of :: "gen_result \<Rightarrow> ustring" where
  "reply_of r = fst r"

definition metadata_of :: "gen_result \<Rightarrow> pydict" where
  "metadata_of r = fst (snd r)"

definition client_of :: "gen_result \<Rightarrow> MistralClient" where
  "client_of r = fst (snd (snd r))"

definition sent_of :: "gen_result \<Rightarrow> net_request list" where
  "sent_of r = snd (snd (snd r))"

text \<open>
  A series of calls on one client, each with its own network outcome and arguments
  (user message, history, context, \<open>max_tokens\<close>).
\<close>

type_synonym client_call =
  "http_outcome \<times> ustring \<times> ConversationMessage list option \<times> session_context option \<times> int"

fun after_calls :: "MistralClient \<Rightarrow> client_call list \<Rightarrow> MistralClient" where
  "after_calls c [] = c"
| "after_calls c ((net, user_message, history, ctx, max_tokens) # calls) =
     after_calls (client_of (generate_response net c user_message history ctx max_tokens)) calls"






section \<open>The assistant (assistant.py)\<close>

datatype AssistantState = IDLE | LISTENING | PROCESSING | SPEAKING | ERROR

record SkillResult =
  success :: bool
  response :: ustring
  data :: pydict
  should_continue :: bool

subsection \<open>What the assistant reads from outside\<close>

text \<open>
  One command-processing cycle reads the clock, the random generator, the platform and
  the network, and uses two built-ins of Python whose full definition lies outside the
  repository: \<open>str.lower\<close> (with \<open>str.capitalize\<close>) and \<open>eval\<close>. They are the fields of
  the environment of the cycle; the theorems hold for every environment.

  \<open>eval\<close> on an expression returns a value (kept by its \<open>str\<close> rendering, as the
  reply formats it), raises \<open>ZeroDivisionError\<close>, or the evaluation or the formatting
  raises another exception.
\<close>

datatype eval_outcome = EvalValue ustring | EvalZeroDivision | EvalRaises

datatype platform_name = Windows | Darwin | OtherPlatform

datatype weekday = Monday | Tuesday | Wednesday | Thursday | Friday | Saturday | Sunday

text \<open>A reading of \<open>datetime.now()\<close>.\<close>

record moment =
  isoformat :: ustring
  strftime :: "ustring \<Rightarrow> ustring"
  weekday :: weekday

text \<open>
  What \<open>requests.get\<close> on the weather service does: a response with a status code, whose
  JSON body (read for status 200) gives \<open>temp\<close>, \<open>feels\_like\<close>, \<open>description\<close> and
  \<open>humidity\<close> (numbers by their rendering) or raises when read; or the call raises.
\<close>

datatype weather_body = WeatherData ustring ustring ustring ustring | WeatherBodyRaises

datatype weather_outcome = WeatherResponse int weather_body | WeatherGetRaises

record environment =
  str_lower :: "ustring \<Rightarrow> ustring"
  str_capitalize :: "ustring \<Rightarrow> ustring"
  py_eval :: "ustring \<Rightarrow> eval_outcome"
  user_time :: ustring
  skill_time_now :: moment
  assistant_time :: ustring
  randint :: "int \<Rightarrow> int \<Rightarrow> int"
  random_index :: "nat \<Rightarrow> nat"
  platform_system :: platform_name
  project_path :: ustring
  weather_get :: weather_outcome
  chat_post :: http_outcome

text \<open>\<open>random.choice(xs)\<close> on a list that is not empty: the element the generator picks.\<close>

definition choice :: "environment \<Rightarrow> 'a list \<Rightarrow> 'a" where
  "choice env xs = xs ! (random_index env (length xs) mod length xs)"

text \<open>
  The actions on the machine (\<open>webbrowser.open\<close>, \<open>os.system\<close>, \<open>os.startfile\<close>) are
  recorded in the order they are made; they return normally. The calls of the callbacks
  \<open>on\_state\_change\<close>, \<open>on\_conversation\_update\<close> and \<open>on\_ai\_response\<close> are recorded as
  notifications: what a registered callback receives.
\<close>

datatype action = BrowserOpen ustring | OsSystem ustring | OsStartfile ustring

datatype notification =
    StateChange AssistantState AssistantState
  | ConversationUpdate ConversationMessage
  | AiResponse pydict

text \<open>
  The values that the constructor and the skills read from the configuration, after the
  defaults of \<open>\_load\_config\<close>.
\<close>

record settings =
  mistral_api_key :: ustring
  mistral_model :: ustring
  user_name :: ustring
  user_location :: ustring
  weather_api_key :: ustring

text \<open>
  The assistant object: the fields that command processing reads or writes. The session
  context holds its string entries (\<open>interests\<close>, a list that no modelled code reads, is
  left out).
\<close>

record VoiceAIAssistant =
  config :: settings
  state :: AssistantState
  conversation_history :: "ConversationMessage list"
  max_history :: int
  mistral_client :: "MistralClient option"
  session :: session_context
  notifications :: "notification list"
  actions :: "action list"
  requests_sent :: "net_request list"

subsection \<open>Texts of the assistant\<close>

text \<open>Keyword lists of the skill matcher (\<open>\_check\_skills\<close>), in the order of the source.\<close>

definition kw_time :: "ustring list" where
  \<comment> \<open>assistant.py:299: "vremya", "kotoryj chas", "skol'ko vremeni", "data", "segodnya chislo"\<close>
  "kw_time =
     [[1074, 1088, 1077, 1084, 1103],
      [1082, 1086, 1090, 1086, 1088, 1099, 1081, 32, 1095, 1072, 1089],
      [1089, 1082, 1086, 1083, 1100, 1082, 1086, 32, 1074, 1088, 1077, 1084, 1077, 1085, 1080],
      [1076, 1072, 1090, 1072],
      [1089, 1077, 1075, 1086, 1076, 1085, 1103, 32, 1095, 1080, 1089, 1083, 1086]]"

definition kw_weather :: "ustring list" where
  \<comment> \<open>assistant.py:303: "pogoda", "temperatura", "gradus", "dozhd'", "solnce"\<close>
  "kw_weather =
     [[1087, 1086, 1075, 1086, 1076, 1072],
      [1090, 1077, 1084, 1087, 1077, 1088, 1072, 1090, 1091, 1088, 1072],
      [1075, 1088, 1072, 1076, 1091, 1089],
      [1076, 1086, 1078, 1076, 1100],
      [1089, 1086, 1083, 1085, 1094, 1077]]"

definition kw_system :: "ustring list" where
  \<comment> \<open>assistant.py:307: "otkroj", "zapusti", "vyklyuchi", "perezagruzi", "zakroj"\<close>
  "kw_system =
     [[1086, 1090, 1082, 1088, 1086, 1081],
      [1079, 1072, 1087, 1091, 1089, 1090, 1080],
      [1074, 1099, 1082, 1083, 1102, 1095, 1080],
      [1087, 1077, 1088, 1077, 1079, 1072, 1075, 1088, 1091, 1079, 1080],
      [1079, 1072, 1082, 1088, 1086, 1081]]"

definition kw_web :: "ustring list" where
  \<comment> \<open>assistant.py:311: "najdi", "poischi", "gugl", "brauzer", "yutub"\<close>
  "kw_web =
     [[1085, 1072, 1081, 1076, 1080],
      [1087, 1086, 1080, 1097, 1080],
      [1075, 1091, 1075, 1083],
      [1073, 1088, 1072, 1091, 1079, 1077, 1088],
      [1102, 1090, 1091, 1073]]"

definition kw_calculation :: "ustring list" where
  \<comment> \<open>assistant.py:315: "poschitaj", "skol'ko budet", "kal'kulyator", "vychisli"\<close>
  "kw_calculation =
     [[1087, 1086, 1089, 1095, 1080, 1090, 1072, 1081],
      [1089, 1082, 1086, 1083, 1100, 1082, 1086, 32, 1073, 1091, 1076, 1077, 1090],
      [1082, 1072, 1083, 1100, 1082, 1091, 1083, 1103, 1090, 1086, 1088],
      [1074, 1099, 1095, 1080, 1089, 1083, 1080]]"

definition kw_entertainment :: "ustring list" where
  \<comment> \<open>assistant.py:319: "shutka", "poshuti", "anekdot", "muzyka", "fil'm"\<close>
  "kw_entertainment =
     [[1096, 1091, 1090, 1082, 1072],
      [1087, 1086, 1096, 1091, 1090, 1080],
      [1072, 1085, 1077, 1082, 1076, 1086, 1090],
      [1084, 1091, 1079, 1099, 1082, 1072],
      [1092, 1080, 1083, 1100, 1084]]"

definition kw_note :: "ustring list" where
  \<comment> \<open>assistant.py:323: "zapomni", "zapishi", "zametka", "zapis'"\<close>
  "kw_note =
     [[1079, 1072, 1087, 1086, 1084, 1085, 1080],
      [1079, 1072, 1087, 1080, 1096, 1080],
      [1079, 1072, 1084, 1077, 1090, 1082, 1072],
      [1079, 1072, 1087, 1080, 1089, 1100]]"

definition kw_reminder :: "ustring list" where
  \<comment> \<open>assistant.py:327: "napomni", "napominanie", "napomnit'"\<close>
  "kw_reminder =
     [[1085, 1072, 1087, 1086, 1084, 1085, 1080],
      [1085, 1072, 1087, 1086, 1084, 1080, 1085, 1072, 1085, 1080, 1077],
      [1085, 1072, 1087, 1086, 1084, 1085, 1080, 1090, 1100]]"

definition kw_clear_history :: "ustring list" where
  \<comment> \<open>assistant.py:331: "ochisti istoriyu", "ochistit' chat", "novaya sessiya"\<close>
  "kw_clear_history =
     [[1086, 1095, 1080, 1089, 1090, 1080, 32, 1080, 1089, 1090, 1086, 1088, 1080, 1102],
      [1086, 1095, 1080, 1089, 1090, 1080, 1090, 1100, 32, 1095, 1072, 1090],
      [1085, 1086, 1074, 1072, 1103, 32, 1089, 1077, 1089, 1089, 1080, 1103]]"

text \<open>Texts of the time skill.\<close>

definition w_vremya :: ustring where
  \<comment> \<open>assistant.py:341: "vremya"\<close>
  "w_vremya =
     [1074, 1088, 1077, 1084, 1103]"

definition w_data :: ustring where
  \<comment> \<open>assistant.py:343: "data"\<close>
  "w_data =
     [1076, 1072, 1090, 1072]"

definition s_now :: ustring where
  \<comment> \<open>assistant.py:342: "Sejchas "\<close>
  "s_now =
     [1057, 1077, 1081, 1095, 1072, 1089, 32]"

definition days :: "ustring list" where
  \<comment> \<open>assistant.py:344: "ponedel'nik", "vtornik", "sreda", "chetverg", "pyatnica", "subbota", "voskresen'e"\<close>
  "days =
     [[1087, 1086, 1085, 1077, 1076, 1077, 1083, 1100, 1085, 1080, 1082],
      [1074, 1090, 1086, 1088, 1085, 1080, 1082],
      [1089, 1088, 1077, 1076, 1072],
      [1095, 1077, 1090, 1074, 1077, 1088, 1075],
      [1087, 1103, 1090, 1085, 1080, 1094, 1072],
      [1089, 1091, 1073, 1073, 1086, 1090, 1072],
      [1074, 1086, 1089, 1082, 1088, 1077, 1089, 1077, 1085, 1100, 1077]]"

definition s_today :: ustring where
  \<comment> \<open>assistant.py:345: "Segodnya "\<close>
  "s_today =
     [1057, 1077, 1075, 1086, 1076, 1085, 1103, 32]"

definition fmt_long_date :: ustring where
  \<comment> \<open>assistant.py:345: "%d %B %Y goda"\<close>
  "fmt_long_date =
     [37, 100, 32, 37, 66, 32, 37, 89, 32, 1075, 1086, 1076, 1072]"

text \<open>Defaults of the configuration.\<close>

definition s_default_user :: ustring where
  \<comment> \<open>assistant.py:114: "Pol'zovatel'"\<close>
  "s_default_user =
     [1055, 1086, 1083, 1100, 1079, 1086, 1074, 1072, 1090, 1077, 1083, 1100]"

text \<open>Texts of the weather skill.\<close>

definition s_moscow :: ustring where
  \<comment> \<open>assistant.py:362: "Moskva"\<close>
  "s_moscow =
     [1052, 1086, 1089, 1082, 1074, 1072]"

definition demo_cities :: "ustring list" where
  \<comment> \<open>assistant.py:371-376: "moskva", "sankt-peterburg", "novosibirsk", "sochi", "kazan'", "ekaterinburg"\<close>
  "demo_cities =
     [[1084, 1086, 1089, 1082, 1074, 1072],
      [1089, 1072, 1085, 1082, 1090, 45, 1087, 1077, 1090, 1077, 1088, 1073, 1091, 1088, 1075],
      [1085, 1086, 1074, 1086, 1089, 1080, 1073, 1080, 1088, 1089, 1082],
      [1089, 1086, 1095, 1080],
      [1082, 1072, 1079, 1072, 1085, 1100],
      [1077, 1082, 1072, 1090, 1077, 1088, 1080, 1085, 1073, 1091, 1088, 1075]]"

definition conditions :: "ustring list" where
  \<comment> \<open>assistant.py:380: "yasno", "oblachno", "pasmurno", "nebol'shoj dozhd'", "sneg", "tuman"\<close>
  "conditions =
     [[1103, 1089, 1085, 1086],
      [1086, 1073, 1083, 1072, 1095, 1085, 1086],
      [1087, 1072, 1089, 1084, 1091, 1088, 1085, 1086],
      [1085, 1077, 1073, 1086, 1083, 1100, 1096, 1086, 1081, 32, 1076, 1086, 1078, 1076, 1100],
      [1089, 1085, 1077, 1075],
      [1090, 1091, 1084, 1072, 1085]]"

definition s_demo_now :: ustring where
  \<comment> \<open>assistant.py:383: " sejchas "\<close>
  "s_demo_now =
     [32, 1089, 1077, 1081, 1095, 1072, 1089, 32]"

definition s_demo_about :: ustring where
  \<comment> \<open>assistant.py:383: ", okolo "\<close>
  "s_demo_about =
     [44, 32, 1086, 1082, 1086, 1083, 1086, 32]"

definition s_demo_tail :: ustring where
  \<comment> \<open>assistant.py:383: "(deg)C. (demo-rezhim)"\<close>
  "s_demo_tail =
     [176, 67, 46, 32, 40, 1076, 1077, 1084, 1086, 45, 1088, 1077, 1078, 1080, 1084, 41]"

definition s_demo_in :: ustring where
  \<comment> \<open>assistant.py:383: "V "\<close>
  "s_demo_in =
     [1042, 32]"

definition s_weather_temperature :: ustring where
  \<comment> \<open>assistant.py:397: " / (bullet) Temperatura: "\<close>
  "s_weather_temperature =
     [10, 8226, 32, 1058, 1077, 1084, 1087, 1077, 1088, 1072, 1090, 1091, 1088, 1072, 58, 32]"

definition s_weather_colon :: ustring where
  \<comment> \<open>assistant.py:397: ": / (bullet) "\<close>
  "s_weather_colon =
     [58, 10, 8226, 32]"

definition s_weather_feels :: ustring where
  \<comment> \<open>assistant.py:397: "(deg)C (oschuschaetsya kak "\<close>
  "s_weather_feels =
     [176, 67, 32, 40, 1086, 1097, 1091, 1097, 1072, 1077, 1090, 1089, 1103, 32, 1082, 1072,
     1082, 32]"

definition s_weather_humidity :: ustring where
  \<comment> \<open>assistant.py:397: "(deg)C) / (bullet) Vlazhnost': "\<close>
  "s_weather_humidity =
     [176, 67, 41, 10, 8226, 32, 1042, 1083, 1072, 1078, 1085, 1086, 1089, 1090, 1100, 58, 32]"

definition s_weather_in :: ustring where
  \<comment> \<open>assistant.py:397: "Pogoda v "\<close>
  "s_weather_in =
     [1055, 1086, 1075, 1086, 1076, 1072, 32, 1074, 32]"

definition s_weather_failed :: ustring where
  \<comment> \<open>assistant.py:402: "Ne udalos' poluchit' pogodu dlya "\<close>
  "s_weather_failed =
     [1053, 1077, 32, 1091, 1076, 1072, 1083, 1086, 1089, 1100, 32, 1087, 1086, 1083, 1091, 1095,
     1080, 1090, 1100, 32, 1087, 1086, 1075, 1086, 1076, 1091, 32, 1076, 1083, 1103, 32]"

definition city_keys :: "ustring list" where
  \<comment> \<open>assistant.py:717-735: "moskva", "piter", "peterburg", "spb", "novosibirsk", "ekaterinburg", "kazan'",
      "nizhnij novgorod", "chelyabinsk", "samara", "omsk", "rostov", "ufa", "krasnoyarsk",
      "perm'", "voronezh", "volgograd", "sochi", "krasnodar"\<close>
  "city_keys =
     [[1084, 1086, 1089, 1082, 1074, 1072],
      [1087, 1080, 1090, 1077, 1088],
      [1087, 1077, 1090, 1077, 1088, 1073, 1091, 1088, 1075],
      [1089, 1087, 1073],
      [1085, 1086, 1074, 1086, 1089, 1080, 1073, 1080, 1088, 1089, 1082],
      [1077, 1082, 1072, 1090, 1077, 1088, 1080, 1085, 1073, 1091, 1088, 1075],
      [1082, 1072, 1079, 1072, 1085, 1100],
      [1085, 1080, 1078, 1085, 1080, 1081, 32, 1085, 1086, 1074, 1075, 1086, 1088, 1086, 1076],
      [1095, 1077, 1083, 1103, 1073, 1080, 1085, 1089, 1082],
      [1089, 1072, 1084, 1072, 1088, 1072],
      [1086, 1084, 1089, 1082],
      [1088, 1086, 1089, 1090, 1086, 1074],
      [1091, 1092, 1072],
      [1082, 1088, 1072, 1089, 1085, 1086, 1103, 1088, 1089, 1082],
      [1087, 1077, 1088, 1084, 1100],
      [1074, 1086, 1088, 1086, 1085, 1077, 1078],
      [1074, 1086, 1083, 1075, 1086, 1075, 1088, 1072, 1076],
      [1089, 1086, 1095, 1080],
      [1082, 1088, 1072, 1089, 1085, 1086, 1076, 1072, 1088]]"

definition city_names :: "ustring list" where
  \<comment> \<open>assistant.py:717-735: "Moskva", "Sankt-Peterburg", "Sankt-Peterburg", "Sankt-Peterburg", "Novosibirsk",
      "Ekaterinburg", "Kazan'", "Nizhnij Novgorod", "Chelyabinsk", "Samara", "Omsk",
      "Rostov-na-Donu", "Ufa", "Krasnoyarsk", "Perm'", "Voronezh", "Volgograd", "Sochi",
      "Krasnodar"\<close>
  "city_names =
     [[1052, 1086, 1089, 1082, 1074, 1072],
      [1057, 1072, 1085, 1082, 1090, 45, 1055, 1077, 1090, 1077, 1088, 1073, 1091, 1088, 1075],
      [1057, 1072, 1085, 1082, 1090, 45, 1055, 1077, 1090, 1077, 1088, 1073, 1091, 1088, 1075],
      [1057, 1072, 1085, 1082, 1090, 45, 1055, 1077, 1090, 1077, 1088, 1073, 1091, 1088, 1075],
      [1053, 1086, 1074, 1086, 1089, 1080, 1073, 1080, 1088, 1089, 1082],
      [1045, 1082, 1072, 1090, 1077, 1088, 1080, 1085, 1073, 1091, 1088, 1075],
      [1050, 1072, 1079, 1072, 1085, 1100],
      [1053, 1080, 1078, 1085, 1080, 1081, 32, 1053, 1086, 1074, 1075, 1086, 1088, 1086, 1076],
      [1063, 1077, 1083, 1103, 1073, 1080, 1085, 1089, 1082],
      [1057, 1072, 1084, 1072, 1088, 1072],
      [1054, 1084, 1089, 1082],
      [1056, 1086, 1089, 1090, 1086, 1074, 45, 1085, 1072, 45, 1044, 1086, 1085, 1091],
      [1059, 1092, 1072],
      [1050, 1088, 1072, 1089, 1085, 1086, 1103, 1088, 1089, 1082],
      [1055, 1077, 1088, 1084, 1100],
      [1042, 1086, 1088, 1086, 1085, 1077, 1078],
      [1042, 1086, 1083, 1075, 1086, 1075, 1088, 1072, 1076],
      [1057, 1086, 1095, 1080],
      [1050, 1088, 1072, 1089, 1085, 1086, 1076, 1072, 1088]]"

text \<open>Texts of the system skill.\<close>

definition w_browser :: ustring where
  \<comment> \<open>assistant.py:424: "brauzer"\<close>
  "w_browser =
     [1073, 1088, 1072, 1091, 1079, 1077, 1088]"

definition w_internet :: ustring where
  \<comment> \<open>assistant.py:424: "internet"\<close>
  "w_internet =
     [1080, 1085, 1090, 1077, 1088, 1085, 1077, 1090]"

definition s_opened_browser :: ustring where
  \<comment> \<open>assistant.py:426: "otkryl brauzer"\<close>
  "s_opened_browser =
     [1086, 1090, 1082, 1088, 1099, 1083, 32, 1073, 1088, 1072, 1091, 1079, 1077, 1088]"

definition w_calculator :: ustring where
  \<comment> \<open>assistant.py:428: "kal'kulyator"\<close>
  "w_calculator =
     [1082, 1072, 1083, 1100, 1082, 1091, 1083, 1103, 1090, 1086, 1088]"

definition s_started_calculator :: ustring where
  \<comment> \<open>assistant.py:435: "zapustil kal'kulyator"\<close>
  "s_started_calculator =
     [1079, 1072, 1087, 1091, 1089, 1090, 1080, 1083, 32, 1082, 1072, 1083, 1100, 1082, 1091,
     1083, 1103, 1090, 1086, 1088]"

definition w_notepad :: ustring where
  \<comment> \<open>assistant.py:437: "bloknot"\<close>
  "w_notepad =
     [1073, 1083, 1086, 1082, 1085, 1086, 1090]"

definition s_opened_notepad :: ustring where
  \<comment> \<open>assistant.py:444: "otkryl bloknot"\<close>
  "s_opened_notepad =
     [1086, 1090, 1082, 1088, 1099, 1083, 32, 1073, 1083, 1086, 1082, 1085, 1086, 1090]"

definition w_folder :: ustring where
  \<comment> \<open>assistant.py:446: "papka"\<close>
  "w_folder =
     [1087, 1072, 1087, 1082, 1072]"

definition w_project :: ustring where
  \<comment> \<open>assistant.py:446: "proekt"\<close>
  "w_project =
     [1087, 1088, 1086, 1077, 1082, 1090]"

definition s_opened_folder :: ustring where
  \<comment> \<open>assistant.py:454: "otkryl papku proekta"\<close>
  "s_opened_folder =
     [1086, 1090, 1082, 1088, 1099, 1083, 32, 1087, 1072, 1087, 1082, 1091, 32, 1087, 1088, 1086,
     1077, 1082, 1090, 1072]"

definition w_switch_off :: ustring where
  \<comment> \<open>assistant.py:456: "vyklyuchi"\<close>
  "w_switch_off =
     [1074, 1099, 1082, 1083, 1102, 1095, 1080]"

definition w_computer :: ustring where
  \<comment> \<open>assistant.py:456: "komp'yuter"\<close>
  "w_computer =
     [1082, 1086, 1084, 1087, 1100, 1102, 1090, 1077, 1088]"

definition s_shutdown_manual :: ustring where
  \<comment> \<open>assistant.py:457: "Vyklyuchenie komp'yutera trebuet podtverzhdeniya vruchnuyu"\<close>
  "s_shutdown_manual =
     [1042, 1099, 1082, 1083, 1102, 1095, 1077, 1085, 1080, 1077, 32, 1082, 1086, 1084, 1087,
     1100, 1102, 1090, 1077, 1088, 1072, 32, 1090, 1088, 1077, 1073, 1091, 1077, 1090, 32, 1087,
     1086, 1076, 1090, 1074, 1077, 1088, 1078, 1076, 1077, 1085, 1080, 1103, 32, 1074, 1088,
     1091, 1095, 1085, 1091, 1102]"

definition s_i :: ustring where
  \<comment> \<open>assistant.py:462: "Ya "\<close>
  "s_i =
     [1071, 32]"

text \<open>Texts of the web search skill.\<close>

definition web_keywords :: "ustring list" where
  \<comment> \<open>assistant.py:479: "najdi", "poischi", "ischi", "najti", "gugl", "brauzer", "yutub", "youtube"\<close>
  "web_keywords =
     [[1085, 1072, 1081, 1076, 1080],
      [1087, 1086, 1080, 1097, 1080],
      [1080, 1097, 1080],
      [1085, 1072, 1081, 1090, 1080],
      [1075, 1091, 1075, 1083],
      [1073, 1088, 1072, 1091, 1079, 1077, 1088],
      [1102, 1090, 1091, 1073],
      [121, 111, 117, 116, 117, 98, 101]]"

definition s_what_to_find :: ustring where
  \<comment> \<open>assistant.py:489: "Chto imenno vy hotite najti?"\<close>
  "s_what_to_find =
     [1063, 1090, 1086, 32, 1080, 1084, 1077, 1085, 1085, 1086, 32, 1074, 1099, 32, 1093, 1086,
     1090, 1080, 1090, 1077, 32, 1085, 1072, 1081, 1090, 1080, 63]"

definition w_youtube_ru :: ustring where
  \<comment> \<open>assistant.py:496: "yutub"\<close>
  "w_youtube_ru =
     [1102, 1090, 1091, 1073]"

definition s_search_youtube :: ustring where
  \<comment> \<open>assistant.py:498: "poisk na YouTube"\<close>
  "s_search_youtube =
     [1087, 1086, 1080, 1089, 1082, 32, 1085, 1072, 32, 89, 111, 117, 84, 117, 98, 101]"

definition s_search_google :: ustring where
  \<comment> \<open>assistant.py:501: "poisk v Google"\<close>
  "s_search_google =
     [1087, 1086, 1080, 1089, 1082, 32, 1074, 32, 71, 111, 111, 103, 108, 101]"

definition s_search_opening :: ustring where
  \<comment> \<open>assistant.py:507: "'... Otkryvayu "\<close>
  "s_search_opening =
     [39, 46, 46, 46, 32, 1054, 1090, 1082, 1088, 1099, 1074, 1072, 1102, 32]"

definition s_search_for :: ustring where
  \<comment> \<open>assistant.py:507: "Ischu '"\<close>
  "s_search_for =
     [1048, 1097, 1091, 32, 39]"

text \<open>Texts of the calculation skill.\<close>

definition calc_keywords :: "ustring list" where
  \<comment> \<open>assistant.py:524: "poschitaj", "skol'ko budet", "kal'kulyator", "vychisli"\<close>
  "calc_keywords =
     [[1087, 1086, 1089, 1095, 1080, 1090, 1072, 1081],
      [1089, 1082, 1086, 1083, 1100, 1082, 1086, 32, 1073, 1091, 1076, 1077, 1090],
      [1082, 1072, 1083, 1100, 1082, 1091, 1083, 1103, 1090, 1086, 1088],
      [1074, 1099, 1095, 1080, 1089, 1083, 1080]]"

definition s_which_expression :: ustring where
  \<comment> \<open>assistant.py:534: "Kakoe vyrazhenie vy hotite vychislit'?"\<close>
  "s_which_expression =
     [1050, 1072, 1082, 1086, 1077, 32, 1074, 1099, 1088, 1072, 1078, 1077, 1085, 1080, 1077, 32,
     1074, 1099, 32, 1093, 1086, 1090, 1080, 1090, 1077, 32, 1074, 1099, 1095, 1080, 1089, 1083,
     1080, 1090, 1100, 63]"

definition w_cyrillic_ha :: ustring where
  \<comment> \<open>assistant.py:541: "h"\<close>
  "w_cyrillic_ha =
     [1093]"

definition s_only_simple :: ustring where
  \<comment> \<open>assistant.py:549: "Ya mogu vychislyat' tol'ko prostye matematicheskie vyrazheniya s ci..."\<close>
  "s_only_simple =
     [1071, 32, 1084, 1086, 1075, 1091, 32, 1074, 1099, 1095, 1080, 1089, 1083, 1103, 1090, 1100,
     32, 1090, 1086, 1083, 1100, 1082, 1086, 32, 1087, 1088, 1086, 1089, 1090, 1099, 1077, 32,
     1084, 1072, 1090, 1077, 1084, 1072, 1090, 1080, 1095, 1077, 1089, 1082, 1080, 1077, 32,
     1074, 1099, 1088, 1072, 1078, 1077, 1085, 1080, 1103, 32, 1089, 32, 1094, 1080, 1092, 1088,
     1072, 1084, 1080, 32, 1080, 32, 1086, 1087, 1077, 1088, 1072, 1090, 1086, 1088, 1072, 1084,
     1080, 32, 43, 32, 45, 32, 42, 32, 47]"

definition s_zero_division :: ustring where
  \<comment> \<open>assistant.py:567: "Na nol' delit' nel'zya!"\<close>
  "s_zero_division =
     [1053, 1072, 32, 1085, 1086, 1083, 1100, 32, 1076, 1077, 1083, 1080, 1090, 1100, 32, 1085,
     1077, 1083, 1100, 1079, 1103, 33]"

text \<open>Texts of the entertainment, note, reminder and clear-history skills.\<close>

definition joke_words :: "ustring list" where
  \<comment> \<open>assistant.py:583: "shutka", "poshuti", "anekdot"\<close>
  "joke_words =
     [[1096, 1091, 1090, 1082, 1072],
      [1087, 1086, 1096, 1091, 1090, 1080],
      [1072, 1085, 1077, 1082, 1076, 1086, 1090]]"

definition jokes :: "ustring list" where
  \<comment> \<open>assistant.py:585-589: "Pochemu programmisty ne lyu...", "Chto skazal odin bit drugom...",
      "Pochemu Python ne idet v sp...", "Kakoj u programmista lyubim...",
      "Pochemu komp'yuter tak holo..."\<close>
  "jokes =
     [[1055, 1086, 1095, 1077, 1084, 1091, 32, 1087, 1088, 1086, 1075, 1088, 1072, 1084, 1084,
      1080, 1089, 1090, 1099, 32, 1085, 1077, 32, 1083, 1102, 1073, 1103, 1090, 32, 1087, 1088,
      1080, 1088, 1086, 1076, 1091, 63, 32, 1042, 32, 1085, 1077, 1081, 32, 1089, 1083, 1080,
      1096, 1082, 1086, 1084, 32, 1084, 1085, 1086, 1075, 1086, 32, 1073, 1072, 1075, 1086, 1074,
      33],
      [1063, 1090, 1086, 32, 1089, 1082, 1072, 1079, 1072, 1083, 32, 1086, 1076, 1080, 1085, 32,
      1073, 1080, 1090, 32, 1076, 1088, 1091, 1075, 1086, 1084, 1091, 63, 32, 1044, 1072, 1074,
      1072, 1081, 32, 1074, 1089, 1090, 1088, 1077, 1090, 1080, 1084, 1089, 1103, 32, 1085, 1072,
      32, 1073, 1072, 1081, 1090, 1086, 1074, 1086, 1081, 32, 1074, 1077, 1095, 1077, 1088, 1080,
      1085, 1082, 1077, 33],
      [1055, 1086, 1095, 1077, 1084, 1091, 32, 80, 121, 116, 104, 111, 110, 32, 1085, 1077, 32,
      1080, 1076, 1077, 1090, 32, 1074, 32, 1089, 1087, 1086, 1088, 1090, 1079, 1072, 1083, 63,
      32, 1054, 1085, 32, 1073, 1086, 1080, 1090, 1089, 1103, 32, 1089, 1080, 1085, 1090, 1072,
      1082, 1089, 1080, 1095, 1077, 1089, 1082, 1080, 1093, 32, 1086, 1096, 1080, 1073, 1086,
      1082, 33],
      [1050, 1072, 1082, 1086, 1081, 32, 1091, 32, 1087, 1088, 1086, 1075, 1088, 1072, 1084,
      1084, 1080, 1089, 1090, 1072, 32, 1083, 1102, 1073, 1080, 1084, 1099, 1081, 32, 1085, 1072,
      1087, 1080, 1090, 1086, 1082, 63, 32, 74, 97, 118, 97, 33],
      [1055, 1086, 1095, 1077, 1084, 1091, 32, 1082, 1086, 1084, 1087, 1100, 1102, 1090, 1077,
      1088, 32, 1090, 1072, 1082, 32, 1093, 1086, 1083, 1086, 1076, 1077, 1085, 63, 32, 1055,
      1086, 1090, 1086, 1084, 1091, 32, 1095, 1090, 1086, 32, 1091, 32, 1085, 1077, 1075, 1086,
      32, 87, 105, 110, 100, 111, 119, 115, 32, 1074, 1089, 1077, 1075, 1076, 1072, 32, 1086,
      1090, 1082, 1088, 1099, 1090, 1099, 33]]"

definition w_music :: ustring where
  \<comment> \<open>assistant.py:600: "muzyka"\<close>
  "w_music =
     [1084, 1091, 1079, 1099, 1082, 1072]"

definition s_music :: ustring where
  \<comment> \<open>assistant.py:605: "Otkryvayu YouTube, vyberite muzyku po vkusu!"\<close>
  "s_music =
     [1054, 1090, 1082, 1088, 1099, 1074, 1072, 1102, 32, 89, 111, 117, 84, 117, 98, 101, 44, 32,
     1074, 1099, 1073, 1077, 1088, 1080, 1090, 1077, 32, 1084, 1091, 1079, 1099, 1082, 1091, 32,
     1087, 1086, 32, 1074, 1082, 1091, 1089, 1091, 33]"

definition w_film :: ustring where
  \<comment> \<open>assistant.py:610: "fil'm"\<close>
  "w_film =
     [1092, 1080, 1083, 1100, 1084]"

definition s_film :: ustring where
  \<comment> \<open>assistant.py:615: "Otkryvayu Kinopoisk, horoshego prosmotra!"\<close>
  "s_film =
     [1054, 1090, 1082, 1088, 1099, 1074, 1072, 1102, 32, 1050, 1080, 1085, 1086, 1087, 1086,
     1080, 1089, 1082, 44, 32, 1093, 1086, 1088, 1086, 1096, 1077, 1075, 1086, 32, 1087, 1088,
     1086, 1089, 1084, 1086, 1090, 1088, 1072, 33]"

definition s_note_saved :: ustring where
  \<comment> \<open>assistant.py:632: "Ya zapomnil eto. (V real'noj versii zametki sohranyayutsya)"\<close>
  "s_note_saved =
     [1071, 32, 1079, 1072, 1087, 1086, 1084, 1085, 1080, 1083, 32, 1101, 1090, 1086, 46, 32, 40,
     1042, 32, 1088, 1077, 1072, 1083, 1100, 1085, 1086, 1081, 32, 1074, 1077, 1088, 1089, 1080,
     1080, 32, 1079, 1072, 1084, 1077, 1090, 1082, 1080, 32, 1089, 1086, 1093, 1088, 1072, 1085,
     1103, 1102, 1090, 1089, 1103, 41]"

definition s_reminder_set :: ustring where
  \<comment> \<open>assistant.py:641: "Napominanie ustanovleno. (V real'noj versii rabotaet sistema napomi..."\<close>
  "s_reminder_set =
     [1053, 1072, 1087, 1086, 1084, 1080, 1085, 1072, 1085, 1080, 1077, 32, 1091, 1089, 1090,
     1072, 1085, 1086, 1074, 1083, 1077, 1085, 1086, 46, 32, 40, 1042, 32, 1088, 1077, 1072,
     1083, 1100, 1085, 1086, 1081, 32, 1074, 1077, 1088, 1089, 1080, 1080, 32, 1088, 1072, 1073,
     1086, 1090, 1072, 1077, 1090, 32, 1089, 1080, 1089, 1090, 1077, 1084, 1072, 32, 1085, 1072,
     1087, 1086, 1084, 1080, 1085, 1072, 1085, 1080, 1081, 41]"

definition s_history_cleared :: ustring where
  \<comment> \<open>assistant.py:652: "Istoriya dialoga ochischena. Nachinaem novuyu besedu!"\<close>
  "s_history_cleared =
     [1048, 1089, 1090, 1086, 1088, 1080, 1103, 32, 1076, 1080, 1072, 1083, 1086, 1075, 1072, 32,
     1086, 1095, 1080, 1097, 1077, 1085, 1072, 46, 32, 1053, 1072, 1095, 1080, 1085, 1072, 1077,
     1084, 32, 1085, 1086, 1074, 1091, 1102, 32, 1073, 1077, 1089, 1077, 1076, 1091, 33]"

text \<open>Texts of the fallback replies.\<close>

definition greeting_words :: "ustring list" where
  \<comment> \<open>assistant.py:662: "privet", "zdravstvuj", "haj", "hello"\<close>
  "greeting_words =
     [[1087, 1088, 1080, 1074, 1077, 1090],
      [1079, 1076, 1088, 1072, 1074, 1089, 1090, 1074, 1091, 1081],
      [1093, 1072, 1081],
      [104, 101, 108, 108, 111]]"

definition s_hello_name :: ustring where
  \<comment> \<open>assistant.py:664: "Privet, "\<close>
  "s_hello_name =
     [1055, 1088, 1080, 1074, 1077, 1090, 44, 32]"

definition s_friend :: ustring where
  \<comment> \<open>assistant.py:664: "drug"\<close>
  "s_friend =
     [1076, 1088, 1091, 1075]"

definition greeting_replies_rest :: "ustring list" where
  \<comment> \<open>assistant.py:665-666: "Zdravstvujte! Chem mogu pom...", "Privetstvuyu! Gotov pomoch'..."\<close>
  "greeting_replies_rest =
     [[1047, 1076, 1088, 1072, 1074, 1089, 1090, 1074, 1091, 1081, 1090, 1077, 33, 32, 1063,
      1077, 1084, 32, 1084, 1086, 1075, 1091, 32, 1087, 1086, 1084, 1086, 1095, 1100, 63],
      [1055, 1088, 1080, 1074, 1077, 1090, 1089, 1090, 1074, 1091, 1102, 33, 32, 1043, 1086,
      1090, 1086, 1074, 32, 1087, 1086, 1084, 1086, 1095, 1100, 32, 1074, 1072, 1084, 33]]"

definition how_are_you_words :: "ustring list" where
  \<comment> \<open>assistant.py:670: "kak dela", "kak ty", "kak zhizn'"\<close>
  "how_are_you_words =
     [[1082, 1072, 1082, 32, 1076, 1077, 1083, 1072],
      [1082, 1072, 1082, 32, 1090, 1099],
      [1082, 1072, 1082, 32, 1078, 1080, 1079, 1085, 1100]]"

definition how_are_you_replies :: "ustring list" where
  \<comment> \<open>assistant.py:672-674: "U menya vsyo otlichno, spas...", "Prekrasno! Vsegda rad pomoch'.", "Vsyo horosho,
      gotov k rabote!"\<close>
  "how_are_you_replies =
     [[1059, 32, 1084, 1077, 1085, 1103, 32, 1074, 1089, 1105, 32, 1086, 1090, 1083, 1080, 1095,
      1085, 1086, 44, 32, 1089, 1087, 1072, 1089, 1080, 1073, 1086, 33, 32, 1040, 32, 1091, 32,
      1074, 1072, 1089, 63],
      [1055, 1088, 1077, 1082, 1088, 1072, 1089, 1085, 1086, 33, 32, 1042, 1089, 1077, 1075,
      1076, 1072, 32, 1088, 1072, 1076, 32, 1087, 1086, 1084, 1086, 1095, 1100, 46],
      [1042, 1089, 1105, 32, 1093, 1086, 1088, 1086, 1096, 1086, 44, 32, 1075, 1086, 1090, 1086,
      1074, 32, 1082, 32, 1088, 1072, 1073, 1086, 1090, 1077, 33]]"

definition thanks_words :: "ustring list" where
  \<comment> \<open>assistant.py:678: "spasibo", "blagodaryu"\<close>
  "thanks_words =
     [[1089, 1087, 1072, 1089, 1080, 1073, 1086],
      [1073, 1083, 1072, 1075, 1086, 1076, 1072, 1088, 1102]]"

definition thanks_replies :: "ustring list" where
  \<comment> \<open>assistant.py:680-682: "Vsegda pozhalujsta!", "Rad byl pomoch'!", "Obraschajtes' eschyo!"\<close>
  "thanks_replies =
     [[1042, 1089, 1077, 1075, 1076, 1072, 32, 1087, 1086, 1078, 1072, 1083, 1091, 1081, 1089,
      1090, 1072, 33],
      [1056, 1072, 1076, 32, 1073, 1099, 1083, 32, 1087, 1086, 1084, 1086, 1095, 1100, 33],
      [1054, 1073, 1088, 1072, 1097, 1072, 1081, 1090, 1077, 1089, 1100, 32, 1077, 1097, 1105,
      33]]"

definition farewell_words :: "ustring list" where
  \<comment> \<open>assistant.py:686: "poka", "do svidaniya", "proschaj"\<close>
  "farewell_words =
     [[1087, 1086, 1082, 1072],
      [1076, 1086, 32, 1089, 1074, 1080, 1076, 1072, 1085, 1080, 1103],
      [1087, 1088, 1086, 1097, 1072, 1081]]"

definition farewell_replies :: "ustring list" where
  \<comment> \<open>assistant.py:688-690: "Do svidaniya! Vozvraschajtes'.", "Poka! Budu rad pomoch' snova.", "Vsego horoshego!"\<close>
  "farewell_replies =
     [[1044, 1086, 32, 1089, 1074, 1080, 1076, 1072, 1085, 1080, 1103, 33, 32, 1042, 1086, 1079,
      1074, 1088, 1072, 1097, 1072, 1081, 1090, 1077, 1089, 1100, 46],
      [1055, 1086, 1082, 1072, 33, 32, 1041, 1091, 1076, 1091, 32, 1088, 1072, 1076, 32, 1087,
      1086, 1084, 1086, 1095, 1100, 32, 1089, 1085, 1086, 1074, 1072, 46],
      [1042, 1089, 1077, 1075, 1086, 32, 1093, 1086, 1088, 1086, 1096, 1077, 1075, 1086, 33]]"

definition w_what_can_you_do :: ustring where
  \<comment> \<open>assistant.py:694: "chto ty umeesh'"\<close>
  "w_what_can_you_do =
     [1095, 1090, 1086, 32, 1090, 1099, 32, 1091, 1084, 1077, 1077, 1096, 1100]"

definition w_help :: ustring where
  \<comment> \<open>assistant.py:694: "pomosch'"\<close>
  "w_help =
     [1087, 1086, 1084, 1086, 1097, 1100]"

definition s_help :: ustring where
  \<comment> \<open>assistant.py:695: "Ya mogu: / (bullet) Otvechat' na voprosy o vremeni i date / (bullet..."\<close>
  "s_help =
     [1071, 32, 1084, 1086, 1075, 1091, 58, 10, 8226, 32, 1054, 1090, 1074, 1077, 1095, 1072,
     1090, 1100, 32, 1085, 1072, 32, 1074, 1086, 1087, 1088, 1086, 1089, 1099, 32, 1086, 32,
     1074, 1088, 1077, 1084, 1077, 1085, 1080, 32, 1080, 32, 1076, 1072, 1090, 1077, 10, 8226,
     32, 1056, 1072, 1089, 1089, 1082, 1072, 1079, 1099, 1074, 1072, 1090, 1100, 32, 1086, 32,
     1087, 1086, 1075, 1086, 1076, 1077, 10, 8226, 32, 1054, 1090, 1082, 1088, 1099, 1074, 1072,
     1090, 1100, 32, 1073, 1088, 1072, 1091, 1079, 1077, 1088, 32, 1080, 32, 1087, 1088, 1086,
     1075, 1088, 1072, 1084, 1084, 1099, 10, 8226, 32, 1048, 1089, 1082, 1072, 1090, 1100, 32,
     1074, 32, 1080, 1085, 1090, 1077, 1088, 1085, 1077, 1090, 1077, 10, 8226, 32, 1042, 1099,
     1087, 1086, 1083, 1085, 1103, 1090, 1100, 32, 1074, 1099, 1095, 1080, 1089, 1083, 1077,
     1085, 1080, 1103, 10, 8226, 32, 1056, 1072, 1089, 1089, 1082, 1072, 1079, 1099, 1074, 1072,
     1090, 1100, 32, 1096, 1091, 1090, 1082, 1080, 10, 8226, 32, 1048, 32, 1084, 1085, 1086,
     1075, 1086, 1077, 32, 1076, 1088, 1091, 1075, 1086, 1077, 33, 10, 10, 1044, 1083, 1103, 32,
     1087, 1086, 1083, 1085, 1086, 1075, 1086, 32, 1092, 1091, 1085, 1082, 1094, 1080, 1086,
     1085, 1072, 1083, 1072, 32, 1089, 32, 65, 73, 32, 1091, 1089, 1090, 1072, 1085, 1086, 1074,
     1080, 1090, 1077, 32, 65, 80, 73, 32, 1082, 1083, 1102, 1095, 32, 79, 112, 101, 110, 82,
     111, 117, 116, 101, 114, 46]"

definition unknown_replies :: "ustring list" where
  \<comment> \<open>assistant.py:707-710: "Izvinite, ya ne sovsem pony...", "Poka ya uchus' ponimat' tak...",
      "Interesnyj vopros! K sozhal...", "Dlya otveta na etot vopros ..."\<close>
  "unknown_replies =
     [[1048, 1079, 1074, 1080, 1085, 1080, 1090, 1077, 44, 32, 1103, 32, 1085, 1077, 32, 1089,
      1086, 1074, 1089, 1077, 1084, 32, 1087, 1086, 1085, 1103, 1083, 46, 32, 1052, 1086, 1078,
      1077, 1090, 1077, 32, 1087, 1077, 1088, 1077, 1092, 1086, 1088, 1084, 1091, 1083, 1080,
      1088, 1086, 1074, 1072, 1090, 1100, 63],
      [1055, 1086, 1082, 1072, 32, 1103, 32, 1091, 1095, 1091, 1089, 1100, 32, 1087, 1086, 1085,
      1080, 1084, 1072, 1090, 1100, 32, 1090, 1072, 1082, 1080, 1077, 32, 1079, 1072, 1087, 1088,
      1086, 1089, 1099, 46, 32, 1055, 1086, 1087, 1088, 1086, 1073, 1091, 1081, 1090, 1077, 32,
      1076, 1088, 1091, 1075, 1091, 1102, 32, 1092, 1086, 1088, 1084, 1091, 1083, 1080, 1088,
      1086, 1074, 1082, 1091, 46],
      [1048, 1085, 1090, 1077, 1088, 1077, 1089, 1085, 1099, 1081, 32, 1074, 1086, 1087, 1088,
      1086, 1089, 33, 32, 1050, 32, 1089, 1086, 1078, 1072, 1083, 1077, 1085, 1080, 1102, 44, 32,
      1084, 1086, 1080, 32, 65, 73, 32, 1074, 1086, 1079, 1084, 1086, 1078, 1085, 1086, 1089,
      1090, 1080, 32, 1074, 1088, 1077, 1084, 1077, 1085, 1085, 1086, 32, 1086, 1075, 1088, 1072,
      1085, 1080, 1095, 1077, 1085, 1099, 46],
      [1044, 1083, 1103, 32, 1086, 1090, 1074, 1077, 1090, 1072, 32, 1085, 1072, 32, 1101, 1090,
      1086, 1090, 32, 1074, 1086, 1087, 1088, 1086, 1089, 32, 1084, 1085, 1077, 32, 1085, 1091,
      1078, 1077, 1085, 32, 1076, 1086, 1089, 1090, 1091, 1087, 32, 1082, 32, 65, 73, 32, 1084,
      1086, 1076, 1077, 1083, 1080, 46, 32, 1059, 1089, 1090, 1072, 1085, 1086, 1074, 1080, 1090,
      1077, 32, 65, 80, 73, 32, 1082, 1083, 1102, 1095, 32, 79, 112, 101, 110, 82, 111, 117, 116,
      101, 114, 46]]"


subsection \<open>Construction\<close>

definition default_settings :: settings where
  "default_settings =
     \<lparr>mistral_api_key = asc ''your_openrouter_api_key'',
      mistral_model = asc ''mistralai/mistral-7b-instruct:free'',
      user_name = s_default_user,
      user_location = s_moscow,
      weather_api_key = []\<rparr>"

text \<open>
  \<open>\_\_init\_\_\<close>: \<open>importable\<close> says whether the import of \<open>mistral\_client\<close> succeeded
  (\<open>MISTRAL\_AVAILABLE\<close>), \<open>now\<close> is the time of construction.
\<close>

definition VoiceAIAssistant_init :: "settings \<Rightarrow> bool \<Rightarrow> ustring \<Rightarrow> VoiceAIAssistant" where
  "VoiceAIAssistant_init cfg importable now =
     \<lparr>config = cfg,
      state = IDLE,
      conversation_history = [],
      max_history = 100,
      mistral_client =
        (if importable
         then Some (MistralClient_init (Some (mistral_api_key cfg)) (mistral_model cfg))
         else None),
      session =
        [(''user_name'', user_name cfg), (''location'', user_location cfg), (''last_active'', now)],
      notifications = [],
      actions = [],
      requests_sent = []\<rparr>"

definition change_state :: "VoiceAIAssistant \<Rightarrow> AssistantState \<Rightarrow> VoiceAIAssistant" where
  "change_state a new_state =
     a\<lparr>state := new_state,
       notifications := notifications a @ [StateChange (state a) new_state]\<rparr>"

subsection \<open>The skills\<close>

text \<open>\<open>any(word in s for word in words)\<close>.\<close>

definition any_in :: "ustring list \<Rightarrow> ustring \<Rightarrow> bool" where
  "any_in ws s = list_ex (\<lambda>word. py_in word s) ws"

text \<open>\<open>SkillResult(success=False, response="", should\_continue=True)\<close>.\<close>

definition no_result :: SkillResult where
  "no_result = \<lparr>success = False, response = [], data = [], should_continue = True\<rparr>"

fun weekday_index :: "weekday \<Rightarrow> nat" where
  "weekday_index Monday = 0"
| "weekday_index Tuesday = 1"
| "weekday_index Wednesday = 2"
| "weekday_index Thursday = 3"
| "weekday_index Friday = 4"
| "weekday_index Saturday = 5"
| "weekday_index Sunday = 6"

definition skill_time :: "environment \<Rightarrow> ustring \<Rightarrow> SkillResult" where
  "skill_time env text =
     (let now = skill_time_now env in
      \<lparr>success = True,
       response =
         (if py_in w_vremya (str_lower env text) then s_now @ strftime now (asc ''%H:%M:%S'')
          else if py_in w_data (str_lower env text)
            then s_today @ strftime now fmt_long_date @ asc '', ''
                 @ days ! weekday_index (weekday now)
          else s_now @ strftime now (asc ''%H:%M, %d.%m.%Y'')),
       data = [(''type'', PStr (asc ''time'')), (''timestamp'', PStr (isoformat now))],
       should_continue = False\<rparr>)"

definition cities :: "(ustring \<times> ustring) list" where
  "cities = zip city_keys city_names"

definition extract_city :: "environment \<Rightarrow> ustring \<Rightarrow> ustring" where
  "extract_city env text =
     (case find (\<lambda>(city_key, city_name). py_in city_key (str_lower env text)) cities of
        Some (city_key, city_name) \<Rightarrow> city_name
      | None \<Rightarrow> [])"

definition weather_result :: "ustring \<Rightarrow> ustring \<Rightarrow> SkillResult" where
  "weather_result city resp =
     \<lparr>success = True,
      response = resp,
      data = [(''type'', PStr (asc ''weather'')), (''city'', PStr city)],
      should_continue = True\<rparr>"

definition skill_weather ::
  "VoiceAIAssistant \<Rightarrow> environment \<Rightarrow> ustring \<Rightarrow> SkillResult \<times> VoiceAIAssistant"
where
  "skill_weather a env text =
     (let found = extract_city env text;
          city =
            (if found = []
             then (case dict_get (session a) ''location'' of Some l \<Rightarrow> l | None \<Rightarrow> s_moscow)
             else found);
          key = weather_api_key (config a)
      in
        if key = [] \<or> key = asc ''your_openweather_api_key'' then
          (let temperatures =
                 zip demo_cities
                   [randint env (- 10) 5, randint env (- 8) 3, randint env (- 15) (- 5),
                    randint env 5 15, randint env (- 7) 2, randint env (- 12) (- 3)];
               temp =
                 (case dict_get temperatures (str_lower env city) of
                    Some t \<Rightarrow> t
                  | None \<Rightarrow> randint env (- 5) 10);
               condition = choice env conditions
           in
             (weather_result city
                (s_demo_in @ city @ s_demo_now @ condition @ s_demo_about @ str_int temp
                 @ s_demo_tail),
              a))
        else
          (let url =
                 asc ''http://api.openweathermap.org/data/2.5/weather?q='' @ city
                 @ asc ''&appid='' @ key @ asc ''&units=metric&lang=ru'';
               a' = a\<lparr>requests_sent := requests_sent a @ [GetUrl url]\<rparr>
           in
             (case weather_get env of
                WeatherGetRaises \<Rightarrow> (no_result, a')
              | WeatherResponse status body \<Rightarrow>
                  (if status = 200 then
                     (case body of
                        WeatherBodyRaises \<Rightarrow> (no_result, a')
                      | WeatherData temp feels_like description humidity \<Rightarrow>
                          (weather_result city
                             (s_weather_in @ city @ s_weather_colon
                              @ str_capitalize env description
                              @ s_weather_temperature @ temp @ s_weather_feels @ feels_like
                              @ s_weather_humidity @ humidity @ asc ''%''),
                           a'))
                   else (weather_result city (s_weather_failed @ city), a')))))"

text \<open>The command that \<open>os.system\<close> runs, by platform.\<close>

definition by_platform :: "environment \<Rightarrow> 'a \<Rightarrow> 'a \<Rightarrow> 'a \<Rightarrow> 'a" where
  "by_platform env windows darwin other =
     (case platform_system env of
        Windows \<Rightarrow> windows
      | Darwin \<Rightarrow> darwin
      | OtherPlatform \<Rightarrow> other)"

definition skill_system ::
  "VoiceAIAssistant \<Rightarrow> environment \<Rightarrow> ustring \<Rightarrow> SkillResult \<times> VoiceAIAssistant"
where
  "skill_system a env text =
     (let text_lower = str_lower env text;
          quoted_path = [34] @ project_path env @ [34];
          done =
            (if py_in w_browser text_lower \<or> py_in w_internet text_lower then
               Some (s_opened_browser, [BrowserOpen (asc ''https://www.google.com'')])
             else if py_in w_calculator text_lower then
               Some (s_started_calculator,
                     [OsSystem (by_platform env (asc ''calc'') (asc ''open -a Calculator'')
                                  (asc ''gnome-calculator''))])
             else if py_in w_notepad text_lower \<or> py_in (asc ''notepad'') text_lower then
               Some (s_opened_notepad,
                     [OsSystem (by_platform env (asc ''notepad'') (asc ''open -a TextEdit'')
                                  (asc ''gedit''))])
             else if py_in w_folder text_lower \<and> py_in w_project text_lower then
               Some (s_opened_folder,
                     [by_platform env (OsStartfile (project_path env))
                        (OsSystem (asc ''open '' @ quoted_path))
                        (OsSystem (asc ''xdg-open '' @ quoted_path))])
             else if py_in w_switch_off text_lower \<and> py_in w_computer text_lower then
               Some (s_shutdown_manual, [])
             else None)
      in
        (case done of
           Some (act, effects) \<Rightarrow>
             (if act \<noteq> [] then
                (\<lparr>success = True,
                  response = s_i @ act @ asc ''.'',
                  data = [(''type'', PStr (asc ''system'')), (''action'', PStr act)],
                  should_continue = True\<rparr>,
                 a\<lparr>actions := actions a @ effects\<rparr>)
              else (no_result, a\<lparr>actions := actions a @ effects\<rparr>))
         | None \<Rightarrow> (no_result, a)))"

text \<open>\<open>for keyword in keywords: s = s.replace(keyword, "")\<close>.\<close>

definition remove_keywords :: "ustring list \<Rightarrow> ustring \<Rightarrow> ustring" where
  "remove_keywords keywords s = foldl (\<lambda>q keyword. py_replace keyword [] q) s keywords"

definition skill_web ::
  "VoiceAIAssistant \<Rightarrow> environment \<Rightarrow> ustring \<Rightarrow> SkillResult \<times> VoiceAIAssistant"
where
  "skill_web a env text =
     (let text_lower = str_lower env text;
          query = py_strip (remove_keywords web_keywords text_lower)
      in
        if query = [] then
          (\<lparr>success = True,
            response = s_what_to_find,
            data = [(''type'', PStr (asc ''web'')), (''action'', PStr (asc ''ask_query''))],
            should_continue = False\<rparr>,
           a)
        else
          (let youtube = (py_in w_youtube_ru text_lower \<or> py_in (asc ''youtube'') text_lower);
               url =
                 (if youtube then asc ''https://www.youtube.com/results?search_query='' @ query
                  else asc ''https://www.google.com/search?q='' @ query);
               act = (if youtube then s_search_youtube else s_search_google)
           in
             (\<lparr>success = True,
               response = s_search_for @ query @ s_search_opening @ act @ asc ''.'',
               data = [(''type'', PStr (asc ''web'')), (''query'', PStr query), (''url'', PStr url)],
               should_continue = True\<rparr>,
              a\<lparr>actions := actions a @ [BrowserOpen url]\<rparr>)))"

definition allowed :: "nat set" where
  "allowed = set (asc ''0123456789+-*/.() '')"

text \<open>The expression left of the text: keywords removed, then stripped.\<close>

definition residual_expression :: "environment \<Rightarrow> ustring \<Rightarrow> ustring" where
  "residual_expression env text = py_strip (remove_keywords calc_keywords (str_lower env text))"

text \<open>The multiplication letters (Latin and Cyrillic) become \<open>*\<close>, the comma becomes a dot.\<close>

definition normalize_expression :: "ustring \<Rightarrow> ustring" where
  "normalize_expression e =
     py_replace (asc '','') (asc ''.'')
       (py_replace w_cyrillic_ha (asc ''*'') (py_replace (asc ''x'') (asc ''*'') e))"

definition only_simple_result :: SkillResult where
  "only_simple_result =
     \<lparr>success = True,
      response = s_only_simple,
      data = [(''type'', PStr (asc ''calculation'')), (''error'', PStr (asc ''invalid_chars''))],
      should_continue = False\<rparr>"

definition skill_calculation :: "environment \<Rightarrow> ustring \<Rightarrow> SkillResult" where
  "skill_calculation env text =
     (let residual = residual_expression env text in
        if residual = [] then
          \<lparr>success = True,
           response = s_which_expression,
           data = [(''type'', PStr (asc ''calculation''))],
           should_continue = False\<rparr>
        else
          (let expression = normalize_expression residual in
             if \<not> list_all (\<lambda>c. c \<in> allowed) expression then only_simple_result
             else
               (case py_eval env expression of
                  EvalValue result \<Rightarrow>
                    \<lparr>success = True,
                     response = expression @ asc '' = '' @ result,
                     data =
                       [(''type'', PStr (asc ''calculation'')), (''expression'', PStr expression),
                        (''result'', PNum result)],
                     should_continue = True\<rparr>
                | EvalZeroDivision \<Rightarrow>
                    \<lparr>success = True,
                     response = s_zero_division,
                     data =
                       [(''type'', PStr (asc ''calculation'')),
                        (''error'', PStr (asc ''zero_division''))],
                     should_continue = False\<rparr>
                | EvalRaises \<Rightarrow> no_result)))"

definition skill_entertainment ::
  "VoiceAIAssistant \<Rightarrow> environment \<Rightarrow> ustring \<Rightarrow> SkillResult \<times> VoiceAIAssistant"
where
  "skill_entertainment a env text =
     (let text_lower = str_lower env text in
        if any_in joke_words text_lower then
          (\<lparr>success = True,
            response = choice env jokes,
            data = [(''type'', PStr (asc ''entertainment'')), (''subtype'', PStr (asc ''joke''))],
            should_continue = True\<rparr>,
           a)
        else if py_in w_music text_lower then
          (\<lparr>success = True,
            response = s_music,
            data = [(''type'', PStr (asc ''entertainment'')), (''subtype'', PStr (asc ''music''))],
            should_continue = True\<rparr>,
           a\<lparr>actions := actions a @ [BrowserOpen (asc ''https://www.youtube.com'')]\<rparr>)
        else if py_in w_film text_lower then
          (\<lparr>success = True,
            response = s_film,
            data = [(''type'', PStr (asc ''entertainment'')), (''subtype'', PStr (asc ''movie''))],
            should_continue = True\<rparr>,
           a\<lparr>actions := actions a @ [BrowserOpen (asc ''https://www.kinopoisk.ru'')]\<rparr>)
        else (no_result, a))"

definition skill_note :: "ustring \<Rightarrow> SkillResult" where
  "skill_note text =
     \<lparr>success = True,
      response = s_note_saved,
      data = [(''type'', PStr (asc ''note'')), (''text'', PStr text)],
      should_continue = True\<rparr>"

definition skill_reminder :: "ustring \<Rightarrow> SkillResult" where
  "skill_reminder text =
     \<lparr>success = True,
      response = s_reminder_set,
      data = [(''type'', PStr (asc ''reminder'')), (''text'', PStr text)],
      should_continue = True\<rparr>"

definition skill_clear_history :: "VoiceAIAssistant \<Rightarrow> SkillResult \<times> VoiceAIAssistant" where
  "skill_clear_history a =
     (\<lparr>success = True,
       response = s_history_cleared,
       data = [(''type'', PStr (asc ''system'')), (''action'', PStr (asc ''clear_history''))],
       should_continue = False\<rparr>,
      a\<lparr>conversation_history := []\<rparr>)"

subsection \<open>The skill matcher\<close>

definition check_skills ::
  "VoiceAIAssistant \<Rightarrow> environment \<Rightarrow> ustring \<Rightarrow> SkillResult \<times> VoiceAIAssistant"
where
  "check_skills a env text =
     (let text_lower = str_lower env text in
        if any_in kw_time text_lower then (skill_time env text, a)
        else if any_in kw_weather text_lower then skill_weather a env text
        else if any_in kw_system text_lower then skill_system a env text
        else if any_in kw_web text_lower then skill_web a env text
        else if any_in kw_calculation text_lower then (skill_calculation env text, a)
        else if any_in kw_entertainment text_lower then skill_entertainment a env text
        else if any_in kw_note text_lower then (skill_note text, a)
        else if any_in kw_reminder text_lower then (skill_reminder text, a)
        else if any_in kw_clear_history text_lower then skill_clear_history a
        else (no_result, a))"

subsection \<open>Command processing\<close>

definition get_fallback_response :: "VoiceAIAssistant \<Rightarrow> environment \<Rightarrow> ustring \<Rightarrow> ustring" where
  "get_fallback_response a env text =
     (let text_lower = str_lower env text in
        if any_in greeting_words text_lower then
          choice env
            ((s_hello_name
              @ (case dict_get (session a) ''user_name'' of Some n \<Rightarrow> n | None \<Rightarrow> s_friend)
              @ asc ''!'')
             # greeting_replies_rest)
        else if any_in how_are_you_words text_lower then choice env how_are_you_replies
        else if any_in thanks_words text_lower then choice env thanks_replies
        else if any_in farewell_words text_lower then choice env farewell_replies
        else if py_in w_what_can_you_do text_lower \<or> py_in w_help text_lower then s_help
        else choice env unknown_replies)"

text \<open>
  \<open>xs[start:]\<close> for an integer \<open>start\<close>: a negative start counts from the end, and the
  start is clipped to the list.
\<close>

definition slice_from :: "int \<Rightarrow> 'a list \<Rightarrow> 'a list" where
  "slice_from start xs =
     (let n = int (length xs);
          s = (if start < 0 then max (n + start) 0 else min start n)
      in drop (nat s) xs)"

text \<open>
  Lines 236--264 of \<open>\_process\_command\<close>: the reply and its metadata from the result of
  the skill matcher, with the assistant afterwards (the model client counts its call and
  may fill its cache; the request it sends is recorded).
\<close>

definition skill_metadata :: "SkillResult \<Rightarrow> pydict" where
  "skill_metadata skill_result =
     [(''source'', PStr (asc ''skill'')), (''skill_data'', PDict (data skill_result))]"

definition use_model :: "VoiceAIAssistant \<Rightarrow> MistralClient option" where
  \<comment> \<open>\<open>self.mistral\_client and self.mistral\_client.is\_available()\<close>\<close>
  "use_model a =
     (case mistral_client a of
        None \<Rightarrow> None
      | Some c \<Rightarrow> (if is_available c then Some c else None))"

definition compose_reply ::
  "VoiceAIAssistant \<Rightarrow> environment \<Rightarrow> ustring \<Rightarrow> SkillResult \<Rightarrow>
   ustring \<times> pydict \<times> VoiceAIAssistant"
where
  "compose_reply a env text skill_result =
     (if success skill_result \<and> \<not> should_continue skill_result then
        (response skill_result, skill_metadata skill_result, a)
      else
        (case use_model a of
           Some c \<Rightarrow>
             (let r = generate_response (chat_post env) c text
                        (Some (conversation_history a)) (Some (session a)) 500;
                  a' = a\<lparr>mistral_client := Some (client_of r),
                         requests_sent := requests_sent a @ sent_of r\<rparr>
              in
                if success skill_result then
                  (response skill_result @ [10, 10] @ reply_of r,
                   dict_set (metadata_of r) ''source'' (PStr (asc ''hybrid'')), a')
                else
                  (reply_of r, dict_set (metadata_of r) ''source'' (PStr (asc ''ai'')), a'))
         | None \<Rightarrow>
             (if success skill_result then
                (response skill_result, skill_metadata skill_result, a)
              else
                (get_fallback_response a env text,
                 [(''source'', PStr (asc ''fallback''))], a))))"

text \<open>
  Lines 218--231: the state change and the user message, appended to the history before
  the skills are tried.
\<close>

definition receive :: "VoiceAIAssistant \<Rightarrow> environment \<Rightarrow> ustring \<Rightarrow> VoiceAIAssistant" where
  "receive a env text =
     (let a1 = change_state a PROCESSING;
          user_message = \<lparr>role = asc ''user'', content = text, timestamp = user_time env\<rparr>
      in
        a1\<lparr>conversation_history := conversation_history a1 @ [user_message],
           notifications := notifications a1 @ [ConversationUpdate user_message]\<rparr>)"

text \<open>
  Lines 218--282: after the user message, the skills, the reply, the assistant message
  and the notifications.
\<close>

definition respond :: "VoiceAIAssistant \<Rightarrow> environment \<Rightarrow> ustring \<Rightarrow> VoiceAIAssistant" where
  "respond a env text =
     (let (skill_result, a3) = check_skills (receive a env text) env text;
          (reply, metadata, a4) = compose_reply a3 env text skill_result;
          assistant_message =
            \<lparr>role = asc ''assistant'', content = reply, timestamp = assistant_time env\<rparr>
      in
        a4\<lparr>conversation_history := conversation_history a4 @ [assistant_message],
           notifications :=
             notifications a4 @ [ConversationUpdate assistant_message, AiResponse metadata]\<rparr>)"

text \<open>Lines 284--286: the old history is cut off.\<close>

definition trim_history :: "VoiceAIAssistant \<Rightarrow> VoiceAIAssistant" where
  "trim_history a =
     (if max_history a < int (length (conversation_history a))
      then a\<lparr>conversation_history := slice_from (- max_history a) (conversation_history a)\<rparr>
      else a)"

text \<open>
  \<open>\_process\_command\<close>. With the external actions and the callbacks returning normally
  no statement of the \<open>try\<close> block raises, so the cycle runs to its end.
\<close>

definition process_command :: "VoiceAIAssistant \<Rightarrow> environment \<Rightarrow> ustring \<Rightarrow> VoiceAIAssistant" where
  "process_command a env text = change_state (trim_history (respond a env text)) IDLE"

text \<open>The commands of the queue, processed one after the other, each in its environment.\<close>

fun process_commands :: "VoiceAIAssistant \<Rightarrow> (environment \<times> ustring) list \<Rightarrow> VoiceAIAssistant" where
  "process_commands a [] = a"
| "process_commands a ((env, text) # commands) =
     process_commands (process_command a env text) commands"

text \<open>What the cycle shows: the reply it appended and the metadata it handed on.\<close>

definition cycle_reply :: "VoiceAIAssistant \<Rightarrow> environment \<Rightarrow> ustring \<Rightarrow> ustring" where
  "cycle_reply a env text = content (last (conversation_history (respond a env text)))"

definition cycle_metadata :: "VoiceAIAssistant \<Rightarrow> environment \<Rightarrow> ustring \<Rightarrow> pydict" where
  "cycle_metadata a env text =
     (case last (notifications (respond a env text)) of
        AiResponse metadata \<Rightarrow> metadata
      | _ \<Rightarrow> [])"

subsection \<open>Ordered dispatch, as the specification words it\<close>

text \<open>
  The specification describes the skill matcher as a first-match-wins search through a
  fixed priority list of categories, each with its keyword set and its handler. These
  definitions follow that description; \<open>check_skills\<close> above follows the source.
\<close>

datatype category =
    TimeDate | Weather | SystemControl | WebSearch | Calculation | Entertainment
  | Note | Reminder | ClearHistory

definition category_priority :: "category list" where
  "category_priority =
     [TimeDate, Weather, SystemControl, WebSearch, Calculation, Entertainment,
      Note, Reminder, ClearHistory]"

fun category_keywords :: "category \<Rightarrow> ustring list" where
  "category_keywords TimeDate = kw_time"
| "category_keywords Weather = kw_weather"
| "category_keywords SystemControl = kw_system"
| "category_keywords WebSearch = kw_web"
| "category_keywords Calculation = kw_calculation"
| "category_keywords Entertainment = kw_entertainment"
| "category_keywords Note = kw_note"
| "category_keywords Reminder = kw_reminder"
| "category_keywords ClearHistory = kw_clear_history"

fun category_handler ::
  "category \<Rightarrow> VoiceAIAssistant \<Rightarrow> environment \<Rightarrow> ustring \<Rightarrow> SkillResult \<times> VoiceAIAssistant"
where
  "category_handler TimeDate a env text = (skill_time env text, a)"
| "category_handler Weather a env text = skill_weather a env text"
| "category_handler SystemControl a env text = skill_system a env text"
| "category_handler WebSearch a env text = skill_web a env text"
| "category_handler Calculation a env text = (skill_calculation env text, a)"
| "category_handler Entertainment a env text = skill_entertainment a env text"
| "category_handler Note a env text = (skill_note text, a)"
| "category_handler Reminder a env text = (skill_reminder text, a)"
| "category_handler ClearHistory a env text = skill_clear_history a"

text \<open>
  The test of a category: one of its keywords occurs in the lower-cased text. The case of
  the text's letters plays no part in it.
\<close>

definition category_matches :: "environment \<Rightarrow> ustring \<Rightarrow> category \<Rightarrow> bool" where
  "category_matches env text cat = any_in (category_keywords cat) (str_lower env text)"

definition first_match :: "environment \<Rightarrow> ustring \<Rightarrow> category option" where
  "first_match env text = find (category_matches env text) category_priority"

definition ordered_dispatch ::
  "VoiceAIAssistant \<Rightarrow> environment \<Rightarrow> ustring \<Rightarrow> SkillResult \<times> VoiceAIAssistant"
where
  "ordered_dispatch a env text =
     (case first_match env text of
        None \<Rightarrow> (\<lparr>success = False, response = [], data = [], should_continue = True\<rparr>, a)
      | Some cat \<Rightarrow> category_handler cat a env text)"

text \<open>The fields of the assistant that no skill writes.\<close>

definition same_frame :: "VoiceAIAssistant \<Rightarrow> VoiceAIAssistant \<Rightarrow> bool" where
  "same_frame a a' \<longleftrightarrow>
     max_history a' = max_history a \<and> mistral_client a' = mistral_client a
     \<and> session a' = session a \<and> config a' = config a \<and> state a' = state a
     \<and> notifications a' = notifications a"

subsection \<open>A concrete environment for examples\<close>

text \<open>
  \<open>lower_basic\<close> agrees with \<open>str.lower\<close> on texts of Basic Latin and Russian letters,
  \<open>capitalize_basic\<close> with \<open>str.capitalize\<close>. \<open>eval_examples\<close> gives the outcome of
  \<open>eval\<close> on the expressions of the examples below and covers no other expression (it
  reads them as raising).
\<close>

definition lower_char :: "nat \<Rightarrow> nat" where
  "lower_char c =
     (if 65 \<le> c \<and> c \<le> 90 then c + 32
      else if 1040 \<le> c \<and> c \<le> 1071 then c + 32
      else if 1024 \<le> c \<and> c \<le> 1039 then c + 80
      else c)"

definition upper_char :: "nat \<Rightarrow> nat" where
  "upper_char c =
     (if 97 \<le> c \<and> c \<le> 122 then c - 32
      else if 1072 \<le> c \<and> c \<le> 1103 then c - 32
      else if 1104 \<le> c \<and> c \<le> 1119 then c - 80
      else c)"

definition lower_basic :: "ustring \<Rightarrow> ustring" where
  "lower_basic s = map lower_char s"

definition capitalize_basic :: "ustring \<Rightarrow> ustring" where
  "capitalize_basic s = (case s of [] \<Rightarrow> [] | c # cs \<Rightarrow> upper_char c # map lower_char cs)"

definition eval_examples :: "ustring \<Rightarrow> eval_outcome" where
  "eval_examples e =
     (if e = asc ''2*3'' then EvalValue (asc ''6'')
      else if e = asc ''2+2'' then EvalValue (asc ''4'')
      else if e = asc ''5/0'' then EvalZeroDivision
      else EvalRaises)"

definition sample_moment :: moment where
  "sample_moment =
     \<lparr>isoformat = asc ''2024-01-15T10:30:00.000000'',
      strftime =
        (\<lambda>fmt. if fmt = asc ''%H:%M:%S'' then asc ''10:30:00''
              else if fmt = asc ''%H:%M, %d.%m.%Y'' then asc ''10:30, 15.01.2024''
              else asc ''15 January 2024 '' @ drop 9 fmt_long_date),
      weekday = Monday\<rparr>"

definition sample_env :: environment where
  "sample_env =
     \<lparr>str_lower = lower_basic,
      str_capitalize = capitalize_basic,
      py_eval = eval_examples,
      user_time = asc ''2024-01-15T10:30:00.000000'',
      skill_time_now = sample_moment,
      assistant_time = asc ''2024-01-15T10:30:00.000500'',
      randint = (\<lambda>lo hi. lo),
      random_index = (\<lambda>n. 0),
      platform_system = OtherPlatform,
      project_path = asc ''/home/user/voiceai'',
      weather_get = WeatherGetRaises,
      chat_post = HttpResponse 200 (ChatChoice (asc '' Hello! '') 12 [] None None)\<rparr>"

text \<open>An assistant as the constructor leaves it, with the default configuration.\<close>

definition sample_assistant :: VoiceAIAssistant where
  "sample_assistant =
     VoiceAIAssistant_init default_settings True (asc ''2024-01-15T10:00:00.000000'')"

text \<open>The same with a credential that passes the availability test.\<close>

definition sample_online_assistant :: VoiceAIAssistant where
  "sample_online_assistant =
     VoiceAIAssistant_init (default_settings\<lparr>mistral_api_key := asc ''sk-or-v1-0123456789abcdef''\<rparr>)
       True (asc ''2024-01-15T10:00:00.000000'')"



definition text_clear :: ustring where
  \<comment> \<open>a clear-history command: "Ochisti istoriyu"\<close>
  "text_clear =
     [1054, 1095, 1080, 1089, 1090, 1080, 32, 1080, 1089, 1090, 1086, 1088, 1080, 1102]"

definition text_time_and_clear :: ustring where
  \<comment> \<open>a command with a clear-history and a time keyword: "ochisti istoriyu, skol'ko vremeni"\<close>
  "text_time_and_clear =
     [1086, 1095, 1080, 1089, 1090, 1080, 32, 1080, 1089, 1090, 1086, 1088, 1080, 1102, 44, 32,
     1089, 1082, 1086, 1083, 1100, 1082, 1086, 32, 1074, 1088, 1077, 1084, 1077, 1085, 1080]"

definition text_weather :: ustring where
  \<comment> \<open>a weather command: "Kakaya pogoda v Sochi"\<close>
  "text_weather =
     [1050, 1072, 1082, 1072, 1103, 32, 1087, 1086, 1075, 1086, 1076, 1072, 32, 1074, 32, 1057,
     1086, 1095, 1080]"

definition text_hello :: ustring where
  \<comment> \<open>a greeting: "Privet"\<close>
  "text_hello =
     [1055, 1088, 1080, 1074, 1077, 1090]"

definition text_note :: ustring where
  \<comment> \<open>a note command: "Zapomni eto"\<close>
  "text_note =
     [1047, 1072, 1087, 1086, 1084, 1085, 1080, 32, 1101, 1090, 1086]"

section \<open>Properties of the model client\<close>

lemma placeholder_strip: "k \<in> set placeholder_keys \<Longrightarrow> py_strip k = k"
  by (auto simp add: placeholder_keys_def asc_def py_strip_def py_isspace_def)

text \<open>
  C5. A client built from a missing credential (\<open>None\<close>, or the empty text, which is in the
  placeholder list), from one of the placeholder texts, or from a credential whose
  stripped form has fewer than 10 characters is unavailable, and every call to
  \<open>generate_response\<close> on it returns the fixed service-unavailable message with empty
  metadata, leaves the client as it was and sends no request.
\<close>

theorem unavailable_client_short_circuits:
  assumes "case key of
             None \<Rightarrow> True
           | Some k \<Rightarrow> k \<in> set placeholder_keys \<or> length (py_strip k) < 10"
  shows "\<not> is_available (MistralClient_init key mdl)
       \<and> generate_response net (MistralClient_init key mdl) user_message history ctx max_tokens
           = (msg_unavailable, [], MistralClient_init key mdl, [])"
proof -
  have "\<not> available (MistralClient_init key mdl)"
  proof (cases key)
    case None
    then show ?thesis by (simp add: MistralClient_init_def)
  next
    case (Some k)
    with assms have "k \<in> set placeholder_keys \<or> length (py_strip k) < 10" by simp
    then have "py_strip k \<in> set placeholder_keys \<or> length (py_strip k) < 10"
      using placeholder_strip by auto
    with Some show ?thesis by (simp add: MistralClient_init_def)
  qed
  then show ?thesis by (simp add: is_available_def generate_response_def)
qed

theorem unavailable_client_short_circuits_witness:
  "\<not> is_available (MistralClient_init (Some (asc '' sk-or-v1- '')) default_model)
   \<and> generate_response RaisesTimeout
        (MistralClient_init (Some (asc '' sk-or-v1- '')) default_model)
        (asc ''hi'') None None 500
      = (msg_unavailable, [], MistralClient_init (Some (asc '' sk-or-v1- '')) default_model, [])"
proof -
  have h: "case Some (asc '' sk-or-v1- '') of
             None \<Rightarrow> True
           | Some k \<Rightarrow> k \<in> set placeholder_keys \<or> length (py_strip k) < 10"
    by (simp add: asc_def py_strip_def py_isspace_def)
  show ?thesis using unavailable_client_short_circuits [OF h] by simp
qed

subsection \<open>The response cache\<close>

lemma dict_get_set_same: "dict_get (dict_set d k v) k = Some v"
  by (induction d k v rule: dict_set.induct) auto

lemma dict_set_new: "k \<notin> set (dict_keys d) \<Longrightarrow> dict_set d k v = d @ [(k, v)]"
  by (induction d k v rule: dict_set.induct) (auto simp: dict_keys_def)

lemma length_dict_set: "length (dict_set d k v) \<le> Suc (length d)"
  by (induction d k v rule: dict_set.induct) auto


lemma keys_dict_set: "set (dict_keys (dict_set d k v)) = insert k (set (dict_keys d))"
  by (induction d k v rule: dict_set.induct) (auto simp: dict_keys_def)

text \<open>Storing into a dictionary keeps its keys distinct.\<close>

lemma distinct_dict_set:
  "distinct (dict_keys d) \<Longrightarrow> distinct (dict_keys (dict_set d k v))"
proof (induction d k v rule: dict_set.induct)
  case (1 k v)
  then show ?case by (simp add: dict_keys_def)
next
  case (2 k' v' d k v)
  show ?case
  proof (cases "k' = k")
    case True
    with 2 show ?thesis by (simp add: dict_keys_def)
  next
    case False
    from 2 have "k' \<notin> set (dict_keys d)" and "distinct (dict_keys d)"
      by (simp_all add: dict_keys_def)
    with 2 False have "distinct (dict_keys (dict_set d k v))"
      and "k' \<notin> set (dict_keys (dict_set d k v))"
      by (simp_all add: keys_dict_set)
    with False show ?thesis by (simp add: dict_keys_def)
  qed
qed

lemma add_to_cache_returns:
  "0 < cache_size c \<Longrightarrow> \<exists>c'. add_to_cache c key resp = Some c'"
  by (auto simp: add_to_cache_def split: list.splits)

lemma add_to_cache_size:
  "add_to_cache c key resp = Some c' \<Longrightarrow> cache_size c' = cache_size c"
  by (auto simp: add_to_cache_def split: list.splits if_splits)

lemma add_to_cache_bound:
  assumes "int (length (response_cache c)) \<le> cache_size c"
      and "add_to_cache c key resp = Some c'"
  shows "int (length (response_cache c')) \<le> cache_size c'"
proof (cases "cache_size c \<le> int (length (response_cache c))")
  case True
  with assms(2) obtain oldest rest where
    r: "response_cache c = oldest # rest" and
    c': "c' = c\<lparr>response_cache := dict_set rest key resp\<rparr>"
    by (auto simp: add_to_cache_def split: list.splits)
  have "length (dict_set rest key resp) \<le> Suc (length rest)" by (rule length_dict_set)
  with r c' assms(1) show ?thesis by simp
next
  case False
  with assms(2) have c': "c' = c\<lparr>response_cache := dict_set (response_cache c) key resp\<rparr>"
    by (auto simp: add_to_cache_def)
  have "length (dict_set (response_cache c) key resp) \<le> Suc (length (response_cache c))"
    by (rule length_dict_set)
  with c' False show ?thesis by simp
qed

lemma add_to_cache_evicts_oldest:
  assumes "int (length (response_cache c)) = cache_size c"
      and "0 < cache_size c"
      and "key \<notin> set (dict_keys (response_cache c))"
  shows "add_to_cache c key resp
           = Some (c\<lparr>response_cache := tl (response_cache c) @ [(key, resp)]\<rparr>)"
proof -
  from assms(1,2) obtain oldest rest where r: "response_cache c = oldest # rest"
    by (cases "response_cache c") auto
  from r assms(3) have "key \<notin> set (dict_keys rest)" by (simp add: dict_keys_def)
  then have "dict_set rest key resp = rest @ [(key, resp)]" by (rule dict_set_new)
  with r assms(1) show ?thesis by (simp add: add_to_cache_def)
qed

lemma add_to_cache_stores:
  "add_to_cache c key resp = Some c' \<Longrightarrow> dict_get (response_cache c') key = Some resp"
  by (auto simp: add_to_cache_def dict_get_set_same split: list.splits if_splits)

lemma add_to_cache_flags:
  "add_to_cache c key resp = Some c' \<Longrightarrow>
     available c' = available c \<and> stats_requests c' = stats_requests c"
  by (auto simp: add_to_cache_def split: if_splits list.splits)

text \<open>
  A call leaves the cache as it was, or its client is the outcome of one \<open>add_to_cache\<close>
  on a client with the same cache and capacity, for a key that the cache did not hold.
\<close>

lemma generate_response_cache_cases:
  "response_cache (client_of (generate_response net c um h ctx mt)) = response_cache c
   \<and> cache_size (client_of (generate_response net c um h ctx mt)) = cache_size c
   \<or> (\<exists>c2 c3 k r. response_cache c2 = response_cache c \<and> cache_size c2 = cache_size c
         \<and> dict_get (response_cache c) k = None
         \<and> add_to_cache c2 k r = Some c3
         \<and> client_of (generate_response net c um h ctx mt) = c3)"
proof (cases "available c")
  case False
  then show ?thesis by (simp add: generate_response_def client_of_def)
next
  case av: True
  let ?c1 = "c\<lparr>stats_requests := stats_requests c + 1\<rparr>"
  let ?key = "create_cache_key (prepare_messages um h ctx)"
  show ?thesis
  proof (cases "dict_get (response_cache c) ?key")
    case (Some r)
    with av show ?thesis by (simp add: generate_response_def client_of_def Let_def)
  next
    case miss: None
    show ?thesis
    proof (cases net)
      case (HttpResponse status body)
      show ?thesis
      proof (cases "status = 200")
        case False
        with av miss HttpResponse show ?thesis
          by (simp add: generate_response_def client_of_def Let_def count_error_def)
      next
        case ok: True
        show ?thesis
        proof (cases body)
          case ChatNoChoices
          with av miss HttpResponse ok show ?thesis
            by (simp add: generate_response_def client_of_def Let_def)
        next
          case (ChatRaises e)
          with av miss HttpResponse ok show ?thesis
            by (simp add: generate_response_def client_of_def Let_def count_error_def)
        next
          case (ChatChoice raw n u m f)
          let ?c2 = "?c1\<lparr>stats_tokens_used := stats_tokens_used ?c1 + n\<rparr>"
          show ?thesis
          proof (cases "add_to_cache ?c2 ?key (py_strip raw)")
            case None
            with av miss HttpResponse ok ChatChoice show ?thesis
              by (simp add: generate_response_def client_of_def Let_def count_error_def)
          next
            case (Some c3)
            with av miss HttpResponse ok ChatChoice
            have "client_of (generate_response net c um h ctx mt) = c3"
              by (simp add: generate_response_def client_of_def Let_def)
            moreover have "response_cache ?c2 = response_cache c"
              and "cache_size ?c2 = cache_size c"
              by simp_all
            ultimately show ?thesis using Some miss by blast
          qed
        qed
      qed
    next
      case RaisesTimeout
      with av miss show ?thesis
        by (simp add: generate_response_def client_of_def Let_def count_error_def)
    next
      case RaisesConnectionError
      with av miss show ?thesis
        by (simp add: generate_response_def client_of_def Let_def count_error_def)
    next
      case (RaisesOther e)
      with av miss show ?thesis
        by (simp add: generate_response_def client_of_def Let_def count_error_def)
    qed
  qed
qed

lemma generate_response_cache_bound:
  assumes "int (length (response_cache c)) \<le> cache_size c"
  shows "int (length (response_cache (client_of (generate_response net c um h ctx mt))))
           \<le> cache_size (client_of (generate_response net c um h ctx mt))
         \<and> cache_size (client_of (generate_response net c um h ctx mt)) = cache_size c"
  using generate_response_cache_cases [of net c um h ctx mt]
proof
  assume "response_cache (client_of (generate_response net c um h ctx mt)) = response_cache c
   \<and> cache_size (client_of (generate_response net c um h ctx mt)) = cache_size c"
  with assms show ?thesis by simp
next
  assume "\<exists>c2 c3 k r. response_cache c2 = response_cache c \<and> cache_size c2 = cache_size c
         \<and> dict_get (response_cache c) k = None
         \<and> add_to_cache c2 k r = Some c3
         \<and> client_of (generate_response net c um h ctx mt) = c3"
  then obtain c2 c3 k r where
    h: "response_cache c2 = response_cache c" "cache_size c2 = cache_size c"
       "add_to_cache c2 k r = Some c3" "client_of (generate_response net c um h ctx mt) = c3"
    by blast
  from assms h(1,2) have "int (length (response_cache c2)) \<le> cache_size c2" by simp
  from add_to_cache_bound [OF this h(3)] add_to_cache_size [OF h(3)] h(2,4)
  show ?thesis by simp
qed


lemma after_calls_cache_bound:
  "int (length (response_cache c)) \<le> cache_size c \<Longrightarrow>
     int (length (response_cache (after_calls c calls))) \<le> cache_size (after_calls c calls)
     \<and> cache_size (after_calls c calls) = cache_size c"
proof (induction c calls rule: after_calls.induct)
  case (1 c)
  then show ?case by simp
next
  case (2 c net user_message history ctx max_tokens calls)
  from generate_response_cache_bound [OF 2(2), of net user_message history ctx max_tokens]
  show ?case using 2(1) by simp
qed

lemma cache_hit_keeps_cache:
  "dict_get (response_cache c) (create_cache_key (prepare_messages um h ctx)) \<noteq> None \<Longrightarrow>
     response_cache (client_of (generate_response net c um h ctx mt)) = response_cache c"
  by (auto simp: generate_response_def client_of_def Let_def)

text \<open>
  C7. The response cache never holds more entries than its capacity: a client obtained
  from a freshly constructed one by any series of \<open>generate_response\<close> calls has at most
  \<open>cache_size = 100\<close> entries, and whatever the (positive) capacity, a call keeps a cache
  that is within capacity within it. Adding an entry with a new key to a cache that is at
  capacity removes exactly the first, oldest inserted entry and puts the new one last; a
  cache hit leaves the order of the cache untouched (eviction follows insertion order,
  not access order).
\<close>

theorem cache_bounded_oldest_evicted:
  "int (length (response_cache (after_calls (MistralClient_init key mdl) calls))) \<le> 100
   \<and> cache_size (after_calls (MistralClient_init key mdl) calls) = 100
   \<and> (int (length (response_cache c)) \<le> cache_size c \<longrightarrow>
        int (length (response_cache (client_of (generate_response net c um h ctx mt))))
          \<le> cache_size (client_of (generate_response net c um h ctx mt))
        \<and> cache_size (client_of (generate_response net c um h ctx mt)) = cache_size c)
   \<and> (int (length (response_cache c)) = cache_size c \<and> 0 < cache_size c
        \<and> k \<notin> set (dict_keys (response_cache c)) \<longrightarrow>
        add_to_cache c k r = Some (c\<lparr>response_cache := tl (response_cache c) @ [(k, r)]\<rparr>))
   \<and> (dict_get (response_cache c) (create_cache_key (prepare_messages um h ctx)) \<noteq> None \<longrightarrow>
        response_cache (client_of (generate_response net c um h ctx mt)) = response_cache c)"
proof -
  have init: "int (length (response_cache (MistralClient_init key mdl)))
                \<le> cache_size (MistralClient_init key mdl)"
    and size: "cache_size (MistralClient_init key mdl) = 100"
    by (simp_all add: MistralClient_init_def)
  from after_calls_cache_bound [OF init, of calls] size
  have "int (length (response_cache (after_calls (MistralClient_init key mdl) calls))) \<le> 100"
    and "cache_size (after_calls (MistralClient_init key mdl) calls) = 100"
    by simp_all
  then show ?thesis
    using generate_response_cache_bound [of c net um h ctx mt]
      add_to_cache_evicts_oldest [of c k r]
      cache_hit_keeps_cache [of c um h ctx net mt]
    by blast
qed

theorem cache_bounded_oldest_evicted_witness:
  "add_to_cache
     ((MistralClient_init None default_model)
        \<lparr>response_cache := [(asc ''a'', asc ''1''), (asc ''b'', asc ''2'')], cache_size := 2\<rparr>)
     (asc ''c'') (asc ''3'')
   = Some ((MistralClient_init None default_model)
        \<lparr>response_cache := [(asc ''b'', asc ''2''), (asc ''c'', asc ''3'')], cache_size := 2\<rparr>)
   \<and> int (length (response_cache (after_calls (MistralClient_init None default_model) []))) \<le> 100"
  using cache_bounded_oldest_evicted
    [of None default_model "[]"
        "(MistralClient_init None default_model)
           \<lparr>response_cache := [(asc ''a'', asc ''1''), (asc ''b'', asc ''2'')], cache_size := 2\<rparr>"
        RaisesTimeout "[]" None None 500 "asc ''c''" "asc ''3''"]
  by (simp add: dict_keys_def asc_def)

subsection \<open>Usage counters and status codes\<close>

lemma generate_response_counts_request:
  assumes "available c"
  shows "stats_requests (client_of (generate_response net c um h ctx mt)) = stats_requests c + 1"
  using assms
  by (auto simp: generate_response_def client_of_def Let_def count_error_def
      dest: add_to_cache_flags
      split: option.splits http_outcome.splits chat_body.splits)

text \<open>
  C8, amended. Every call to \<open>generate_response\<close> on an available client increments the
  \<open>requests\<close> counter by exactly one, whatever the outcome of the call (cache hit, any
  HTTP status, any exception): the increment does not wait for the outcome. A call on an
  unavailable client returns the fixed service-unavailable message and leaves the counter
  as it was.
\<close>

theorem requests_counted_iff_available:
  "stats_requests (client_of (generate_response net c um h ctx mt))
     = (if available c then stats_requests c + 1 else stats_requests c)
   \<and> (\<not> available c \<longrightarrow>
        reply_of (generate_response net c um h ctx mt) = msg_unavailable)"
proof (cases "available c")
  case True
  then show ?thesis by (simp add: generate_response_counts_request)
next
  case False
  then show ?thesis by (simp add: generate_response_def client_of_def reply_of_def)
qed

theorem requests_counted_iff_available_witness:
  "available (MistralClient_init (Some (asc ''sk-or-v1-0123456789'')) default_model)
   \<and> stats_requests (client_of (generate_response (HttpResponse 500 ChatNoChoices)
        (MistralClient_init (Some (asc ''sk-or-v1-0123456789'')) default_model)
        (asc ''hi'') None None 500)) = 1"
proof -
  have a: "available (MistralClient_init (Some (asc ''sk-or-v1-0123456789'')) default_model)"
    by (simp add: MistralClient_init_def asc_def py_strip_def py_isspace_def placeholder_keys_def)
  have z: "stats_requests (MistralClient_init (Some (asc ''sk-or-v1-0123456789'')) default_model)
             = 0"
    by (simp add: MistralClient_init_def)
  from requests_counted_iff_available [of "HttpResponse 500 ChatNoChoices"
      "MistralClient_init (Some (asc ''sk-or-v1-0123456789'')) default_model"
      "asc ''hi''" None None 500] a z
  show ?thesis by simp
qed

text \<open>
  The claim as it stands fails: a call on an unavailable client returns before the counter
  is touched.
\<close>

theorem requests_not_counted_when_unavailable:
  "stats_requests (client_of (generate_response RaisesTimeout
       (MistralClient_init None default_model) (asc ''hi'') None None 500))
   \<noteq> stats_requests (MistralClient_init None default_model) + 1"
  by (simp add: generate_response_def client_of_def MistralClient_init_def)

text \<open>
  C9. When the request is sent (the client is available and the cache has no entry for
  the key) and the response has status 401, the reply is the fixed invalid-credential
  message; with status 429 it is the fixed rate-limited message; in both cases the
  \<open>errors\<close> counter keeps its value. Any status other than 200, 401 and 429 gives the
  fixed message that embeds the status code, and adds one to the \<open>errors\<close> counter.
\<close>

theorem status_401_429_not_counted_others_counted:
  assumes "available c"
      and "dict_get (response_cache c) (create_cache_key (prepare_messages um h ctx)) = None"
  shows "reply_of (generate_response (HttpResponse 401 body) c um h ctx mt) = msg_invalid_key
       \<and> stats_errors (client_of (generate_response (HttpResponse 401 body) c um h ctx mt))
           = stats_errors c
       \<and> reply_of (generate_response (HttpResponse 429 body) c um h ctx mt) = msg_rate_limited
       \<and> stats_errors (client_of (generate_response (HttpResponse 429 body) c um h ctx mt))
           = stats_errors c
       \<and> (status \<noteq> 200 \<and> status \<noteq> 401 \<and> status \<noteq> 429 \<longrightarrow>
            reply_of (generate_response (HttpResponse status body) c um h ctx mt)
              = msg_service_error @ str_int status @ asc '')''
          \<and> stats_errors (client_of (generate_response (HttpResponse status body) c um h ctx mt))
              = stats_errors c + 1)"
  using assms
  by (simp add: generate_response_def client_of_def reply_of_def Let_def count_error_def)

theorem status_401_429_not_counted_others_counted_witness:
  "reply_of (generate_response (HttpResponse 503 ChatNoChoices)
       (MistralClient_init (Some (asc ''sk-or-v1-0123456789'')) default_model)
       (asc ''hi'') None None 500)
     = msg_service_error @ asc ''503)''
   \<and> stats_errors (client_of (generate_response (HttpResponse 503 ChatNoChoices)
       (MistralClient_init (Some (asc ''sk-or-v1-0123456789'')) default_model)
       (asc ''hi'') None None 500)) = 1
   \<and> stats_errors (client_of (generate_response (HttpResponse 401 ChatNoChoices)
       (MistralClient_init (Some (asc ''sk-or-v1-0123456789'')) default_model)
       (asc ''hi'') None None 500)) = 0"
proof -
  let ?c = "MistralClient_init (Some (asc ''sk-or-v1-0123456789'')) default_model"
  have a: "available ?c"
    by (simp add: MistralClient_init_def asc_def py_strip_def py_isspace_def placeholder_keys_def)
  have m: "dict_get (response_cache ?c)
             (create_cache_key (prepare_messages (asc ''hi'') None None)) = None"
    by (simp add: MistralClient_init_def)
  have s: "str_int 503 = asc ''503''"
    by (simp add: str_int_def asc_def)
  have e: "stats_errors ?c = 0"
    by (simp add: MistralClient_init_def)
  from status_401_429_not_counted_others_counted [OF a m, of ChatNoChoices 500 503] s e
  show ?thesis by (simp add: asc_def)
qed

subsection \<open>Cache hits\<close>












subsection \<open>Eviction between two calls\<close>


lemma keys_tl: "dict_keys (tl d) = tl (dict_keys d)"
  by (cases d) (simp_all add: dict_keys_def)













section \<open>Properties of the assistant\<close>

subsection \<open>The example commands, lower-cased\<close>

lemmas kw_defs = kw_time_def kw_weather_def kw_system_def kw_web_def kw_calculation_def
  kw_entertainment_def kw_note_def kw_reminder_def kw_clear_history_def

lemmas first_match_defs = first_match_def category_priority_def category_matches_def any_in_def



lemma lower_text_clear:
  "str_lower sample_env text_clear =
     [1086, 1095, 1080, 1089, 1090, 1080, 32, 1080, 1089, 1090, 1086, 1088, 1080, 1102]"
  by (simp add: sample_env_def lower_basic_def lower_char_def text_clear_def)

lemma lower_text_time_and_clear:
  "str_lower sample_env text_time_and_clear =
     [1086, 1095, 1080, 1089, 1090, 1080, 32, 1080, 1089, 1090, 1086, 1088, 1080, 1102, 44, 32,
     1089, 1082, 1086, 1083, 1100, 1082, 1086, 32, 1074, 1088, 1077, 1084, 1077, 1085, 1080]"
  by (simp add: sample_env_def lower_basic_def lower_char_def text_time_and_clear_def)

lemma lower_text_weather:
  "str_lower sample_env text_weather =
     [1082, 1072, 1082, 1072, 1103, 32, 1087, 1086, 1075, 1086, 1076, 1072, 32, 1074, 32, 1089,
     1086, 1095, 1080]"
  by (simp add: sample_env_def lower_basic_def lower_char_def text_weather_def)

lemma lower_text_hello:
  "str_lower sample_env text_hello =
     [1087, 1088, 1080, 1074, 1077, 1090]"
  by (simp add: sample_env_def lower_basic_def lower_char_def text_hello_def)

lemma lower_text_note:
  "str_lower sample_env text_note =
     [1079, 1072, 1087, 1086, 1084, 1085, 1080, 32, 1101, 1090, 1086]"
  by (simp add: sample_env_def lower_basic_def lower_char_def text_note_def)

subsection \<open>The skill matcher is an ordered first-match dispatch\<close>

lemma check_skills_dispatch: "check_skills a env text = ordered_dispatch a env text"
  by (simp add: check_skills_def ordered_dispatch_def first_match_def category_priority_def
      category_matches_def no_result_def Let_def)

text \<open>
  C2. For every text the skill matcher is the ordered, first-match-wins dispatch over the
  priority list time/date, weather, system control, web search, calculation,
  entertainment, note, reminder, clear history: its result is the handler of the first
  category one of whose keywords occurs in the lower-cased text (no earlier category of
  the list matches), and \<open>{success: False, should_continue: True}\<close> with an empty
  response when no category matches. The test reads the text only through its lower-cased
  form, so two texts that differ in the case of their letters are dispatched alike.
\<close>

theorem check_skills_ordered_first_match:
  "check_skills a env text = ordered_dispatch a env text
   \<and> (first_match env text = None \<longrightarrow>
        check_skills a env text
          = (\<lparr>success = False, response = [], data = [], should_continue = True\<rparr>, a))
   \<and> (\<forall>cat. first_match env text = Some cat \<longrightarrow>
        check_skills a env text = category_handler cat a env text
        \<and> category_matches env text cat
        \<and> (\<forall>earlier \<in> set (takeWhile (\<lambda>c. c \<noteq> cat) category_priority).
              \<not> category_matches env text earlier))
   \<and> (str_lower env text' = str_lower env text \<longrightarrow> first_match env text' = first_match env text)"
proof -
  have d: "check_skills a env text = ordered_dispatch a env text"
    by (rule check_skills_dispatch)
  have n: "first_match env text = None \<longrightarrow>
        check_skills a env text
          = (\<lparr>success = False, response = [], data = [], should_continue = True\<rparr>, a)"
    by (simp add: d ordered_dispatch_def)
  have s: "\<forall>cat. first_match env text = Some cat \<longrightarrow>
        check_skills a env text = category_handler cat a env text
        \<and> category_matches env text cat
        \<and> (\<forall>earlier \<in> set (takeWhile (\<lambda>c. c \<noteq> cat) category_priority).
              \<not> category_matches env text earlier)"
  proof (intro allI impI)
    fix cat
    assume f: "first_match env text = Some cat"
    then have "find (category_matches env text) category_priority = Some cat"
      by (simp add: first_match_def)
    then obtain i where i: "i < length category_priority" "category_matches env text (category_priority ! i)"
       "cat = category_priority ! i" "\<forall>j<i. \<not> category_matches env text (category_priority ! j)"
      by (auto simp: find_Some_iff)
    have dist: "distinct category_priority" by (simp add: category_priority_def)
    have tw: "takeWhile (\<lambda>c. c \<noteq> cat) category_priority = take i category_priority"
      using i(1,3) dist by (simp add: takeWhile_not_last takeWhile_eq_take_P_nth nth_eq_iff_index_eq)
    have "\<forall>earlier \<in> set (take i category_priority). \<not> category_matches env text earlier"
      using i(1,4) by (auto simp: in_set_conv_nth)
    with tw i f show "check_skills a env text = category_handler cat a env text
        \<and> category_matches env text cat
        \<and> (\<forall>earlier \<in> set (takeWhile (\<lambda>c. c \<noteq> cat) category_priority).
              \<not> category_matches env text earlier)"
      by (simp add: d ordered_dispatch_def)
  qed
  have c: "str_lower env text' = str_lower env text \<longrightarrow> first_match env text' = first_match env text"
    by (simp add: first_match_def category_matches_def cong: find_cong)
  from d n s c show ?thesis by blast
qed

theorem check_skills_ordered_first_match_witness:
  "first_match sample_env text_time_and_clear = Some TimeDate
   \<and> category_matches sample_env text_time_and_clear ClearHistory
   \<and> check_skills sample_assistant sample_env text_time_and_clear
       = (skill_time sample_env text_time_and_clear, sample_assistant)"
proof -
  have f: "first_match sample_env text_time_and_clear = Some TimeDate"
    by (simp add: first_match_defs kw_defs lower_text_time_and_clear)
  have c: "category_matches sample_env text_time_and_clear ClearHistory"
    by (simp add: category_matches_def any_in_def kw_defs lower_text_time_and_clear)
  from check_skills_ordered_first_match
    [of sample_assistant sample_env text_time_and_clear text_time_and_clear] f
  have "check_skills sample_assistant sample_env text_time_and_clear
          = category_handler TimeDate sample_assistant sample_env text_time_and_clear"
    by blast
  with f c show ?thesis by simp
qed

subsection \<open>The history stays within its maximum\<close>

lemma skill_weather_frame: "same_frame a (snd (skill_weather a env text))"
  by (simp add: skill_weather_def same_frame_def Let_def
      split: weather_outcome.splits weather_body.splits)

lemma skill_system_frame: "same_frame a (snd (skill_system a env text))"
  by (simp add: skill_system_def same_frame_def Let_def split: option.splits prod.splits)

lemma skill_web_frame: "same_frame a (snd (skill_web a env text))"
  by (simp add: skill_web_def same_frame_def Let_def)

lemma skill_entertainment_frame: "same_frame a (snd (skill_entertainment a env text))"
  by (simp add: skill_entertainment_def same_frame_def Let_def)

lemma skill_clear_history_frame: "same_frame a (snd (skill_clear_history a))"
  by (simp add: skill_clear_history_def same_frame_def)

lemma category_handler_frame: "same_frame a (snd (category_handler cat a env text))"
  by (cases cat)
    (simp_all add: skill_weather_frame skill_system_frame skill_web_frame
      skill_entertainment_frame skill_clear_history_frame, simp_all add: same_frame_def)

lemma check_skills_frame: "same_frame a (snd (check_skills a env text))"
  by (simp add: check_skills_dispatch ordered_dispatch_def category_handler_frame
      split: option.splits, simp add: same_frame_def)

lemma compose_reply_max_history:
  "max_history (snd (snd (compose_reply a env text sr))) = max_history a"
  by (simp add: compose_reply_def Let_def split: option.splits)

lemma respond_max_history: "max_history (respond a env text) = max_history a"
proof -
  obtain sr a3 where c: "check_skills (receive a env text) env text = (sr, a3)"
    by (cases "check_skills (receive a env text) env text")
  obtain reply metadata a4 where r: "compose_reply a3 env text sr = (reply, metadata, a4)"
    by (cases "compose_reply a3 env text sr")
  from check_skills_frame [of "receive a env text" env "text"] c
  have "max_history a3 = max_history (receive a env text)" by (simp add: same_frame_def)
  moreover have "max_history (receive a env text) = max_history a"
    by (simp add: receive_def change_state_def Let_def)
  moreover from compose_reply_max_history [of a3 env "text" sr] r
  have "max_history a4 = max_history a3" by simp
  ultimately show ?thesis by (simp add: respond_def c r Let_def)
qed

lemma slice_from_last_n: "0 < m \<Longrightarrow> slice_from (- m) xs = last_n (nat m) xs"
proof -
  assume m: "0 < m"
  from m have "nat (max (int (length xs) - m) 0) = length xs - nat m"
    by (cases "int (length xs) \<le> m") (simp_all add: max_def nat_diff_distrib')
  with m show ?thesis by (simp add: slice_from_def last_n_def Let_def)
qed

lemma length_last_n: "length (last_n n xs) \<le> n"
  by (simp add: last_n_def)

lemma trim_history_last_n:
  assumes "0 < max_history a"
  shows "conversation_history (trim_history a)
           = last_n (nat (max_history a)) (conversation_history a)"
proof (cases "max_history a < int (length (conversation_history a))")
  case True
  with assms show ?thesis by (simp add: trim_history_def slice_from_last_n)
next
  case False
  then have "length (conversation_history a) - nat (max_history a) = 0" by linarith
  with False show ?thesis by (simp add: trim_history_def last_n_def)
qed

lemma process_command_history:
  assumes "0 < max_history a"
  shows "conversation_history (process_command a env text)
           = last_n (nat (max_history a)) (conversation_history (respond a env text))"
    and "max_history (process_command a env text) = max_history a"
proof -
  from assms have "0 < max_history (respond a env text)" by (simp add: respond_max_history)
  from trim_history_last_n [OF this]
  show "conversation_history (process_command a env text)
           = last_n (nat (max_history a)) (conversation_history (respond a env text))"
    by (simp add: process_command_def change_state_def respond_max_history)
  show "max_history (process_command a env text) = max_history a"
    by (simp add: process_command_def change_state_def trim_history_def respond_max_history)
qed

lemma process_command_bound:
  assumes "0 < max_history a"
  shows "int (length (conversation_history (process_command a env text))) \<le> max_history a"
proof -
  have "length (last_n (nat (max_history a)) (conversation_history (respond a env text)))
          \<le> nat (max_history a)" by (rule length_last_n)
  with assms show ?thesis by (simp add: process_command_history(1))
qed

lemma process_commands_bound:
  assumes "0 < max_history a" and "int (length (conversation_history a)) \<le> max_history a"
  shows "int (length (conversation_history (process_commands a commands))) \<le> max_history a
       \<and> max_history (process_commands a commands) = max_history a"
  using assms
proof (induction a commands rule: process_commands.induct)
  case (1 a)
  then show ?case by simp
next
  case (2 a env cmd commands)
  from 2(2) have m: "max_history (process_command a env cmd) = max_history a"
    and b: "int (length (conversation_history (process_command a env cmd))) \<le> max_history a"
    by (simp_all add: process_command_history(2) process_command_bound)
  with 2(1) 2(2) show ?case by simp
qed

text \<open>
  C6. With a positive maximum (the constructor sets 100), after a command-processing
  cycle the history is the newest \<open>max_history\<close> entries of what the cycle built (the
  oldest entries are the ones dropped), so its length is at most the maximum; the
  maximum itself does not change, and the bound holds after any number of further
  commands, and after any series of commands on a newly constructed assistant.
\<close>

theorem history_bounded_newest_kept:
  assumes "0 < max_history a"
  shows "conversation_history (process_command a env text)
           = last_n (nat (max_history a)) (conversation_history (respond a env text))
       \<and> int (length (conversation_history (process_command a env text))) \<le> max_history a
       \<and> max_history (process_command a env text) = max_history a
       \<and> int (length (conversation_history
              (process_commands (process_command a env text) commands))) \<le> max_history a
       \<and> int (length (conversation_history
              (process_commands (VoiceAIAssistant_init cfg importable now) commands))) \<le> 100"
proof -
  let ?a' = "process_command a env text"
  have h: "conversation_history ?a'
             = last_n (nat (max_history a)) (conversation_history (respond a env text))"
    and m: "max_history ?a' = max_history a"
    using assms by (simp_all add: process_command_history)
  from assms have b: "int (length (conversation_history ?a')) \<le> max_history a"
    by (rule process_command_bound)
  from assms m b have "0 < max_history ?a'"
    and "int (length (conversation_history ?a')) \<le> max_history ?a'"
    by simp_all
  from process_commands_bound [OF this, of commands] m
  have s: "int (length (conversation_history (process_commands ?a' commands))) \<le> max_history a"
    by simp
  let ?i = "VoiceAIAssistant_init cfg importable now"
  have "0 < max_history ?i" and "int (length (conversation_history ?i)) \<le> max_history ?i"
    and "max_history ?i = 100"
    by (simp_all add: VoiceAIAssistant_init_def)
  with process_commands_bound [of ?i commands]
  have i: "int (length (conversation_history (process_commands ?i commands))) \<le> 100"
    by simp
  from h m b s i show ?thesis by blast
qed

theorem history_bounded_newest_kept_witness:
  "0 < max_history (sample_assistant\<lparr>max_history := 1\<rparr>)
   \<and> int (length (conversation_history
         (process_command (sample_assistant\<lparr>max_history := 1\<rparr>) sample_env text_hello)))
       \<le> max_history (sample_assistant\<lparr>max_history := 1\<rparr>)
   \<and> int (length (conversation_history
         (process_commands (VoiceAIAssistant_init default_settings True [])
            [(sample_env, text_hello), (sample_env, text_note)]))) \<le> 100"
proof -
  have h: "0 < max_history (sample_assistant\<lparr>max_history := 1\<rparr>)" by simp
  from history_bounded_newest_kept [OF h, of sample_env text_hello
      "[(sample_env, text_hello), (sample_env, text_note)]" default_settings True "[]"] h
  show ?thesis by blast
qed

subsection \<open>Clearing the history\<close>

lemma receive_history:
  "conversation_history (receive a env text)
     = conversation_history a @ [\<lparr>role = asc ''user'', content = text, timestamp = user_time env\<rparr>]"
  by (simp add: receive_def change_state_def Let_def)

text \<open>
  C10, amended. When clear-history is the first category of the priority list that the
  command matches (it holds a clear-history keyword and no keyword of a category of
  higher priority), the user message of that command is already in the history when the
  skill clears it, so it is erased too; after the cycle the history holds exactly one
  message, the assistant's acknowledgement.
\<close>

theorem clear_history_leaves_acknowledgement:
  assumes "first_match env text = Some ClearHistory" and "0 \<le> max_history a"
  shows "conversation_history (receive a env text)
           = conversation_history a
             @ [\<lparr>role = asc ''user'', content = text, timestamp = user_time env\<rparr>]
       \<and> conversation_history (snd (check_skills (receive a env text) env text)) = []
       \<and> conversation_history (process_command a env text)
           = [\<lparr>role = asc ''assistant'', content = s_history_cleared,
               timestamp = assistant_time env\<rparr>]"
proof -
  let ?a2 = "receive a env text"
  from assms(1) have c: "check_skills ?a2 env text = skill_clear_history ?a2"
    by (simp add: check_skills_dispatch ordered_dispatch_def)
  have r: "conversation_history (respond a env text)
             = [\<lparr>role = asc ''assistant'', content = s_history_cleared,
                 timestamp = assistant_time env\<rparr>]"
    by (simp add: respond_def c skill_clear_history_def compose_reply_def Let_def)
  from assms(2) have "\<not> max_history (respond a env text) < int (length (conversation_history (respond a env text)))
     \<or> max_history (respond a env text) = 0"
    by (auto simp add: respond_max_history r)
  then have "conversation_history (trim_history (respond a env text))
               = conversation_history (respond a env text)"
    by (auto simp add: trim_history_def slice_from_def Let_def)
  with r show ?thesis
    by (simp add: process_command_def change_state_def receive_history c skill_clear_history_def)
qed

lemma first_match_text_clear: "first_match sample_env text_clear = Some ClearHistory"
  by (simp add: first_match_defs kw_defs lower_text_clear)

theorem clear_history_leaves_acknowledgement_witness:
  "first_match sample_env text_clear = Some ClearHistory
   \<and> conversation_history (process_command sample_assistant sample_env text_clear)
       = [\<lparr>role = asc ''assistant'', content = s_history_cleared,
           timestamp = assistant_time sample_env\<rparr>]"
proof -
  have m: "0 \<le> max_history sample_assistant"
    by (simp add: sample_assistant_def VoiceAIAssistant_init_def)
  from clear_history_leaves_acknowledgement [OF first_match_text_clear m] first_match_text_clear
  show ?thesis by blast
qed

subsection \<open>The calculation skill refuses other characters\<close>
















subsection \<open>The decision table of the reply\<close>

lemma compose_reply_frame:
  "compose_reply a env text sr = (reply, metadata, a4) \<Longrightarrow>
     conversation_history a4 = conversation_history a \<and> notifications a4 = notifications a
     \<and> max_history a4 = max_history a \<and> session a4 = session a"
  by (auto simp: compose_reply_def Let_def split: if_splits option.splits)

lemma trim_history_frame:
  "mistral_client (trim_history a) = mistral_client a
   \<and> requests_sent (trim_history a) = requests_sent a"
  by (simp add: trim_history_def)

lemma cycle_outputs:
  assumes "check_skills (receive a env text) env text = (sr, a3)"
      and "compose_reply a3 env text sr = (reply, metadata, a4)"
  shows "cycle_reply a env text = reply"
    and "cycle_metadata a env text = metadata"
    and "mistral_client (process_command a env text) = mistral_client a4"
    and "requests_sent (process_command a env text) = requests_sent a4"
  using assms
  by (simp_all add: cycle_reply_def cycle_metadata_def respond_def process_command_def
      change_state_def trim_history_frame Let_def)

lemma source_of_skill_metadata:
  "dict_get (skill_metadata sr) ''source'' = Some (PStr (asc ''skill''))"
  by (simp add: skill_metadata_def)

lemma check_skills_use_model:
  "use_model (snd (check_skills a env text)) = use_model a"
  using check_skills_frame [of a env "text"] by (simp add: use_model_def same_frame_def)

lemma receive_use_model: "use_model (receive a env text) = use_model a"
  by (simp add: use_model_def receive_def change_state_def Let_def)

lemma receive_frame:
  "mistral_client (receive a env text) = mistral_client a
   \<and> session (receive a env text) = session a"
  by (simp add: receive_def change_state_def Let_def)

lemma use_model_available: "use_model a = Some c \<Longrightarrow> available c \<and> mistral_client a = Some c"
  by (auto simp: use_model_def is_available_def split: option.splits if_splits)

text \<open>
  C1. For every processed text command the cycle composes its reply by the decision
  table, where the skill result is what the skill matcher returns after the user message
  has been appended. If the skill succeeded with \<open>should_continue = False\<close>, the reply is
  exactly the skill response, the source is \<open>skill\<close> and the model client is left as it
  was. Otherwise, if the model client is present and available, it is called (it counts
  one request) and the reply is the skill response, a blank line and the model reply with
  source \<open>hybrid\<close> when the skill succeeded, the model reply alone with source \<open>ai\<close> when
  it failed. Otherwise the reply is the skill response (source \<open>skill\<close>) when the skill
  succeeded, the local fallback reply (source \<open>fallback\<close>) when it failed, and the model
  client is left as it was.
\<close>

theorem reply_follows_decision_table:
  fixes a env utterance
  defines "sr \<equiv> fst (check_skills (receive a env utterance) env utterance)"
      and "a3 \<equiv> snd (check_skills (receive a env utterance) env utterance)"
  shows
    "(success sr \<and> \<not> should_continue sr \<longrightarrow>
        cycle_reply a env utterance = response sr
        \<and> dict_get (cycle_metadata a env utterance) ''source'' = Some (PStr (asc ''skill''))
        \<and> mistral_client (process_command a env utterance) = mistral_client a
        \<and> requests_sent (process_command a env utterance) = requests_sent a3)
     \<and> (\<not> (success sr \<and> \<not> should_continue sr) \<longrightarrow>
          (\<forall>c. use_model a = Some c \<longrightarrow>
             mistral_client (process_command a env utterance)
               = Some (client_of (generate_response (chat_post env) c utterance
                    (Some (conversation_history a3)) (Some (session a)) 500))
             \<and> stats_requests (client_of (generate_response (chat_post env) c utterance
                    (Some (conversation_history a3)) (Some (session a)) 500))
                 = stats_requests c + 1
             \<and> (success sr \<longrightarrow>
                  cycle_reply a env utterance
                    = response sr @ [10, 10]
                      @ reply_of (generate_response (chat_post env) c utterance
                          (Some (conversation_history a3)) (Some (session a)) 500)
                  \<and> dict_get (cycle_metadata a env utterance) ''source''
                      = Some (PStr (asc ''hybrid'')))
             \<and> (\<not> success sr \<longrightarrow>
                  cycle_reply a env utterance
                    = reply_of (generate_response (chat_post env) c utterance
                          (Some (conversation_history a3)) (Some (session a)) 500)
                  \<and> dict_get (cycle_metadata a env utterance) ''source''
                      = Some (PStr (asc ''ai''))))
          \<and> (use_model a = None \<longrightarrow>
               mistral_client (process_command a env utterance) = mistral_client a
               \<and> requests_sent (process_command a env utterance) = requests_sent a3
               \<and> (success sr \<longrightarrow>
                    cycle_reply a env utterance = response sr
                    \<and> dict_get (cycle_metadata a env utterance) ''source''
                        = Some (PStr (asc ''skill'')))
               \<and> (\<not> success sr \<longrightarrow>
                    cycle_reply a env utterance = get_fallback_response a3 env utterance
                    \<and> dict_get (cycle_metadata a env utterance) ''source''
                        = Some (PStr (asc ''fallback'')))))"
proof -
  have cs: "check_skills (receive a env utterance) env utterance = (sr, a3)"
    by (simp add: sr_def a3_def)
  have um: "use_model a3 = use_model a"
    using check_skills_use_model [of "receive a env utterance" env utterance]
    by (simp add: a3_def receive_use_model)
  have fr: "mistral_client a3 = mistral_client a" "session a3 = session a"
    using check_skills_frame [of "receive a env utterance" env utterance]
    by (simp_all add: a3_def same_frame_def receive_frame)
  obtain reply metadata a4 where cr: "compose_reply a3 env utterance sr = (reply, metadata, a4)"
    by (cases "compose_reply a3 env utterance sr")
  note out = cycle_outputs [OF cs cr]
  show ?thesis
  proof (cases "success sr \<and> \<not> should_continue sr")
    case True
    with cr have "reply = response sr" "metadata = skill_metadata sr" "a4 = a3"
      by (simp_all add: compose_reply_def)
    with True out fr show ?thesis by (simp add: source_of_skill_metadata)
  next
    case False
    show ?thesis
    proof (cases "use_model a")
      case None
      with False cr um have
        "reply = (if success sr then response sr else get_fallback_response a3 env utterance)"
        "metadata = (if success sr then skill_metadata sr else [(''source'', PStr (asc ''fallback''))])"
        "a4 = a3"
        by (auto simp: compose_reply_def split: if_splits)
      with False None out fr show ?thesis by (simp add: source_of_skill_metadata)
    next
      case (Some c)
      let ?r = "generate_response (chat_post env) c utterance
                  (Some (conversation_history a3)) (Some (session a)) 500"
      from Some have av: "available c" by (simp add: use_model_available)
      from False cr um Some fr have
        "reply = (if success sr then response sr @ [10, 10] @ reply_of ?r else reply_of ?r)"
        "metadata = dict_set (metadata_of ?r) ''source''
                      (PStr (if success sr then asc ''hybrid'' else asc ''ai''))"
        "mistral_client a4 = Some (client_of ?r)"
        by (auto simp: compose_reply_def Let_def split: if_splits)
      with False Some out generate_response_counts_request [OF av, of "chat_post env" utterance
          "Some (conversation_history a3)" "Some (session a)" 500]
      show ?thesis by (simp add: dict_get_set_same)
    qed
  qed
qed

lemma fresh_client_reply:
  assumes "available c" and "response_cache c = []" and "0 < cache_size c"
  shows "reply_of (generate_response (HttpResponse 200 (ChatChoice raw n u m f)) c um h ctx mt)
           = py_strip raw"
  using assms by (simp add: generate_response_def reply_of_def add_to_cache_def Let_def)

lemma first_match_text_note: "first_match sample_env text_note = Some Note"
  by (simp add: first_match_defs kw_defs lower_text_note)

lemma first_match_text_hello: "first_match sample_env text_hello = None"
  by (simp add: first_match_defs kw_defs lower_text_hello)

lemma use_model_online:
  "use_model sample_online_assistant
     = Some (MistralClient_init (Some (asc ''sk-or-v1-0123456789abcdef'')) (mistral_model default_settings))"
  by (simp add: sample_online_assistant_def VoiceAIAssistant_init_def use_model_def
      is_available_def MistralClient_init_def default_settings_def asc_def py_strip_def
      py_isspace_def placeholder_keys_def)

lemma use_model_offline: "use_model sample_assistant = None"
  by (simp add: sample_assistant_def VoiceAIAssistant_init_def use_model_def
      is_available_def MistralClient_init_def default_settings_def asc_def py_strip_def
      py_isspace_def placeholder_keys_def)

lemma fallback_hello:
  "get_fallback_response a sample_env text_hello
     = s_hello_name @ (case dict_get (session a) ''user_name'' of Some n \<Rightarrow> n | None \<Rightarrow> s_friend)
       @ asc ''!''"
proof -
  have g: "any_in greeting_words (str_lower sample_env text_hello)"
    by (simp add: lower_text_hello any_in_def greeting_words_def)
  have r: "\<And>n. random_index sample_env n = 0"
    by (simp add: sample_env_def)
  show ?thesis
    by (simp add: get_fallback_response_def g r choice_def Let_def)
qed

lemma first_match_text_time_and_clear:
  "first_match sample_env text_time_and_clear = Some TimeDate"
  by (simp add: first_match_defs kw_defs lower_text_time_and_clear)

lemma strip_hello: "py_strip (asc '' Hello! '') = asc ''Hello!''"
  by (simp add: py_strip_def py_isspace_def asc_def)

lemma chat_post_sample:
  "chat_post sample_env = HttpResponse 200 (ChatChoice (asc '' Hello! '') 12 [] None None)"
  by (simp add: sample_env_def)

lemma session_user_name_sample:
  "dict_get (session (receive sample_assistant env t)) ''user_name'' = Some s_default_user"
  by (simp add: receive_def change_state_def Let_def sample_assistant_def
      VoiceAIAssistant_init_def default_settings_def)

theorem reply_follows_decision_table_witness:
  "cycle_reply sample_online_assistant sample_env text_note
     = s_note_saved @ [10, 10] @ asc ''Hello!''
   \<and> dict_get (cycle_metadata sample_online_assistant sample_env text_note) ''source''
       = Some (PStr (asc ''hybrid''))
   \<and> cycle_reply sample_assistant sample_env text_hello
       = s_hello_name @ s_default_user @ asc ''!''
   \<and> dict_get (cycle_metadata sample_assistant sample_env text_hello) ''source''
       = Some (PStr (asc ''fallback''))
   \<and> cycle_reply sample_assistant sample_env text_time_and_clear
       = response (skill_time sample_env text_time_and_clear)
   \<and> dict_get (cycle_metadata sample_assistant sample_env text_time_and_clear) ''source''
       = Some (PStr (asc ''skill''))
   \<and> mistral_client (process_command sample_assistant sample_env text_time_and_clear)
       = mistral_client sample_assistant"
proof -
  let ?c = "MistralClient_init (Some (asc ''sk-or-v1-0123456789abcdef''))
              (mistral_model default_settings)"
  have av: "available ?c" "response_cache ?c = []" "0 < cache_size ?c"
    using use_model_available [OF use_model_online]
    by (simp_all add: MistralClient_init_def)
  have note_skill:
    "check_skills (receive sample_online_assistant sample_env text_note) sample_env text_note
       = (skill_note text_note, receive sample_online_assistant sample_env text_note)"
    by (simp add: check_skills_dispatch ordered_dispatch_def first_match_text_note)
  have hello_skill:
    "check_skills (receive sample_assistant sample_env text_hello) sample_env text_hello
       = (no_result, receive sample_assistant sample_env text_hello)"
    by (simp add: check_skills_dispatch ordered_dispatch_def first_match_text_hello no_result_def)
  have time_skill:
    "check_skills (receive sample_assistant sample_env text_time_and_clear) sample_env
        text_time_and_clear
       = (skill_time sample_env text_time_and_clear,
          receive sample_assistant sample_env text_time_and_clear)"
    by (simp add: check_skills_dispatch ordered_dispatch_def first_match_text_time_and_clear)
  have hybrid:
    "cycle_reply sample_online_assistant sample_env text_note
       = s_note_saved @ [10, 10] @ asc ''Hello!''
     \<and> dict_get (cycle_metadata sample_online_assistant sample_env text_note) ''source''
         = Some (PStr (asc ''hybrid''))"
    using reply_follows_decision_table [of sample_online_assistant sample_env text_note]
      use_model_online
    by (simp add: note_skill skill_note_def chat_post_sample fresh_client_reply [OF av]
        strip_hello)
  have fallback:
    "cycle_reply sample_assistant sample_env text_hello
       = s_hello_name @ s_default_user @ asc ''!''
     \<and> dict_get (cycle_metadata sample_assistant sample_env text_hello) ''source''
         = Some (PStr (asc ''fallback''))"
    using reply_follows_decision_table [of sample_assistant sample_env text_hello]
      use_model_offline
    by (simp add: hello_skill no_result_def fallback_hello session_user_name_sample)
  have skill:
    "cycle_reply sample_assistant sample_env text_time_and_clear
       = response (skill_time sample_env text_time_and_clear)
     \<and> dict_get (cycle_metadata sample_assistant sample_env text_time_and_clear) ''source''
         = Some (PStr (asc ''skill''))
     \<and> mistral_client (process_command sample_assistant sample_env text_time_and_clear)
         = mistral_client sample_assistant"
    using reply_follows_decision_table [of sample_assistant sample_env text_time_and_clear]
    by (simp add: time_skill skill_time_def Let_def)
  from hybrid fallback skill show ?thesis by blast
qed

subsection \<open>A clear-history keyword behind a keyword of higher priority\<close>

lemma skill_time_flags:
  "success (skill_time env t) \<and> \<not> should_continue (skill_time env t)"
  by (simp add: skill_time_def Let_def)

lemma skill_time_text_time_and_clear:
  "response (skill_time sample_env text_time_and_clear) = s_now @ asc ''10:30, 15.01.2024''"
proof -
  have n: "\<not> py_in w_vremya (str_lower sample_env text_time_and_clear)"
    "\<not> py_in w_data (str_lower sample_env text_time_and_clear)"
    by (simp_all add: lower_text_time_and_clear w_vremya_def w_data_def)
  have s: "strftime (skill_time_now sample_env) (asc ''%H:%M, %d.%m.%Y'') = asc ''10:30, 15.01.2024''"
    by (simp add: sample_env_def sample_moment_def asc_def)
  from n s show ?thesis by (simp add: skill_time_def Let_def)
qed

text \<open>
  The claim as it stands fails for a command that passes the clear-history test and the
  test of a category of higher priority: the command below also holds a time keyword, so
  the time skill answers, the history is not cleared and it holds two messages after the
  cycle.
\<close>

theorem clear_keyword_with_time_keyword_keeps_history:
  "category_matches sample_env text_time_and_clear ClearHistory
   \<and> conversation_history (process_command sample_assistant sample_env text_time_and_clear)
       = [\<lparr>role = asc ''user'', content = text_time_and_clear,
            timestamp = user_time sample_env\<rparr>,
          \<lparr>role = asc ''assistant'', content = s_now @ asc ''10:30, 15.01.2024'',
            timestamp = assistant_time sample_env\<rparr>]"
proof -
  have c: "category_matches sample_env text_time_and_clear ClearHistory"
    by (simp add: category_matches_def any_in_def kw_defs lower_text_time_and_clear)
  have cs: "check_skills (receive sample_assistant sample_env text_time_and_clear) sample_env
              text_time_and_clear
            = (skill_time sample_env text_time_and_clear,
               receive sample_assistant sample_env text_time_and_clear)"
    by (simp add: check_skills_dispatch ordered_dispatch_def first_match_text_time_and_clear)
  have h0: "conversation_history sample_assistant = []" "max_history sample_assistant = 100"
    by (simp_all add: sample_assistant_def VoiceAIAssistant_init_def)
  have r: "conversation_history (respond sample_assistant sample_env text_time_and_clear)
       = [\<lparr>role = asc ''user'', content = text_time_and_clear,
            timestamp = user_time sample_env\<rparr>,
          \<lparr>role = asc ''assistant'', content = response (skill_time sample_env text_time_and_clear),
            timestamp = assistant_time sample_env\<rparr>]"
    by (simp add: respond_def cs compose_reply_def skill_time_flags receive_history h0 Let_def)
  have m: "max_history (respond sample_assistant sample_env text_time_and_clear) = 100"
    by (simp add: respond_max_history h0)
  from r m have "conversation_history (process_command sample_assistant sample_env text_time_and_clear)
       = conversation_history (respond sample_assistant sample_env text_time_and_clear)"
    by (simp add: process_command_def change_state_def trim_history_def)
  with r c show ?thesis by (simp add: skill_time_text_time_and_clear)
qed

end
